theory Spec2Isabelle
  imports Complex_Main
begin

section \<open>Values shared by the two revisions of the database layer\<close>

text \<open>
  The repository is a persistence layer (\<^verbatim>\<open>server/db.ts\<close>) behind tRPC routers. Two
  revisions of the layer are in the sources: \<^verbatim>\<open>src/unnamed/part_006\<close> (tables of the SQL
  migration \<^verbatim>\<open>0001\<close>) and \<^verbatim>\<open>src/unnamed/part_007\<close> (tables of \<^verbatim>\<open>drizzle/schema.ts\<close>).
  A \<^verbatim>\<open>Date\<close> is modelled as milliseconds (an integer). In the first revision a JSON
  column holds the value it encodes and a JavaScript number is a real: the arithmetic of
  \<^verbatim>\<open>updateAgentMetrics\<close> and \<^verbatim>\<open>getAgentMetrics\<close> is idealised there (no rounding of
  doubles, no \<^verbatim>\<open>NaN\<close>, no \<^verbatim>\<open>Infinity\<close>), and no property below reads a number that the
  layer computes. The second revision encodes its values itself; its numbers and JSON
  texts are modelled further down.
\<close>

datatype json =
    JNull
  | JBool bool
  | JNum real
  | JStr string
  | JArr "json list"
  | JObj "(string \<times> json) list"

text \<open>JavaScript truthiness, as used by \<^verbatim>\<open>x || d\<close> and \<^verbatim>\<open>if (x)\<close>.\<close>

fun js_truthy :: "json \<Rightarrow> bool" where
  "js_truthy JNull = False"
| "js_truthy (JBool b) = b"
| "js_truthy (JNum x) = (x \<noteq> 0)"
| "js_truthy (JStr s) = (s \<noteq> [])"
| "js_truthy (JArr xs) = True"
| "js_truthy (JObj kvs) = True"

text \<open>\<^verbatim>\<open>x || d\<close> for an optional number, string, and for a value that is truthy
  whenever it is present (an array, an object, an enum string).\<close>

definition num_or :: "real option \<Rightarrow> real \<Rightarrow> real" where
  "num_or x d = (case x of None \<Rightarrow> d | Some v \<Rightarrow> if v = 0 then d else v)"

definition str_or :: "string option \<Rightarrow> string \<Rightarrow> string" where
  "str_or x d = (case x of None \<Rightarrow> d | Some v \<Rightarrow> if v = [] then d else v)"

definition obj_or :: "'a option \<Rightarrow> 'a \<Rightarrow> 'a" where
  "obj_or x d = (case x of None \<Rightarrow> d | Some v \<Rightarrow> v)"

text \<open>An exception: \<^verbatim>\<open>new Error(msg)\<close> thrown by the layer, an error of the MySQL driver
  (the only driver failure modelled is the duplicate primary key), or the
  \<^verbatim>\<open>TypeError\<close> of \<^verbatim>\<open>JSON.stringify\<close>.\<close>

datatype error = Error string | DriverError string | TypeError string

datatype db_handle = Drizzle string

text \<open>Tables are lists of rows in insertion order.\<close>

definition first_row :: "'r list \<Rightarrow> 'r option" where
  "first_row rs = (case rs of [] \<Rightarrow> None | r # _ \<Rightarrow> Some r)"

definition update_where :: "('r \<Rightarrow> bool) \<Rightarrow> ('r \<Rightarrow> 'r) \<Rightarrow> 'r list \<Rightarrow> 'r list" where
  "update_where p f rs = map (\<lambda>r. if p r then f r else r) rs"

definition insert_row :: "('r \<Rightarrow> string) \<Rightarrow> 'r \<Rightarrow> 'r list \<Rightarrow> error + 'r list" where
  "insert_row key r rs =
     (if key r \<in> set (map key rs) then Inl (DriverError ''ER_DUP_ENTRY'')
      else Inr (rs @ [r]))"

section \<open>First revision: \<^verbatim>\<open>src/unnamed/part_006\<close>\<close>

subsection \<open>Column enumerations\<close>

datatype role = RoleUser | RoleAdmin
datatype agent_type = Reasoning | Execution | Coordination | Analysis
datatype agent_status = Active | Inactive | AgentError | Maintenance
datatype pattern = Hierarchical | Sequential | Concurrent | Round_robin | Mesh
datatype workflow_status = Draft | WfActive | Paused | Archived
datatype task_status = Pending | Running | Completed | Failed | Timeout
datatype consensus_method = Voting | Judge | Mixture_of_agents | NoConsensus
datatype message_type = Request | Response | Status_update | MsgError | Broadcast
datatype delivery_status = DeliveryPending | Delivered | Acknowledged | DeliveryFailed
datatype event_type = EvExecution | EvDecision | EvError | EvMetric | EvState_change
datatype log_level = Debug | Info | Warning | LevelError | Critical
datatype alert_type =
  Agent_failure | Task_timeout | System_error | Task_completion | Performance_degradation
datatype severity = SevInfo | SevWarning | SevCritical
datatype template_category =
  CatHierarchical | CatSequential | CatConcurrent | CatRound_robin | CatMesh | CatMixture
datatype llm_provider_kind = Openai | Anthropic | Ollama | Custom

text \<open>The filters of the list operations arrive as strings and are compared with the
  column by SQL equality, so the enumerations are rendered as the column stores them.\<close>

fun agent_status_str :: "agent_status \<Rightarrow> string" where
  "agent_status_str Active = ''active''"
| "agent_status_str Inactive = ''inactive''"
| "agent_status_str AgentError = ''error''"
| "agent_status_str Maintenance = ''maintenance''"

fun agent_type_str :: "agent_type \<Rightarrow> string" where
  "agent_type_str Reasoning = ''reasoning''"
| "agent_type_str Execution = ''execution''"
| "agent_type_str Coordination = ''coordination''"
| "agent_type_str Analysis = ''analysis''"

fun workflow_status_str :: "workflow_status \<Rightarrow> string" where
  "workflow_status_str Draft = ''draft''"
| "workflow_status_str WfActive = ''active''"
| "workflow_status_str Paused = ''paused''"
| "workflow_status_str Archived = ''archived''"

fun template_category_str :: "template_category \<Rightarrow> string" where
  "template_category_str CatHierarchical = ''hierarchical''"
| "template_category_str CatSequential = ''sequential''"
| "template_category_str CatConcurrent = ''concurrent''"
| "template_category_str CatRound_robin = ''round_robin''"
| "template_category_str CatMesh = ''mesh''"
| "template_category_str CatMixture = ''mixture_of_agents''"

subsection \<open>Rows\<close>

record user_row =
  u_id :: nat
  u_openId :: string
  u_name :: "string option"
  u_email :: "string option"
  u_loginMethod :: "string option"
  u_role :: role
  u_createdAt :: int
  u_updatedAt :: int
  u_lastSignedIn :: int

record agent_row =
  a_id :: string
  a_name :: string
  a_type :: agent_type
  a_description :: "string option"
  a_capabilities :: "string list option"
  a_status :: "agent_status option"
  a_llmModel :: "string option"
  a_parameters :: "json option"
  a_integrationFramework :: "string option"
  a_version :: "string option"
  healthScore :: "real option"
  successRate :: "real option"
  totalExecutions :: "real option"
  failedExecutions :: "real option"
  a_createdAt :: int
  a_updatedAt :: int

record workflow_row =
  wf_id :: string
  wf_name :: string
  wf_description :: "string option"
  orchestrationPattern :: pattern
  nodes :: "json list option"
  edges :: "json list option"
  wf_configuration :: "json option"
  wf_status :: "workflow_status option"
  templateId :: "string option"
  wf_createdAt :: int
  wf_updatedAt :: int

record task_row =
  t_id :: string
  t_workflowId :: string
  t_input :: "json option"
  assignedAgents :: "string list option"
  t_status :: "task_status option"
  priority :: "real option"
  t_result :: "json option"
  consensusResult :: "json option"
  consensusMethod :: "consensus_method option"
  t_executionTime :: "real option"
  t_createdAt :: int
  t_updatedAt :: "int option"
  startedAt :: "int option"
  completedAt :: "int option"
  retryCount :: "real option"
  errorLog :: "string option"
  t_storageUrl :: "string option"

record message_row =
  m_id :: string
  senderId :: string
  recipientId :: "string option"
  m_taskId :: "string option"
  messageType :: message_type
  m_content :: "json option"
  m_timestamp :: int
  deliveryStatus :: "delivery_status option"
  m_metadata :: "json option"

record log_row =
  l_id :: string
  l_taskId :: string
  l_agentId :: string
  eventType :: event_type
  l_level :: "log_level option"
  l_message :: "string option"
  l_metadata :: "json option"
  l_timestamp :: int
  l_storageUrl :: "string option"

record metric_row =
  mt_id :: string
  mt_agentId :: string
  mt_taskId :: "string option"
  executionTime :: "real option"
  tokenUsage :: "real option"
  estimatedCost :: "real option"
  successFlag :: "bool option"
  mt_timestamp :: int

record alert_row =
  al_id :: string
  alertType :: alert_type
  al_severity :: "severity option"
  al_title :: string
  al_message :: "string option"
  relatedAgentId :: "string option"
  relatedTaskId :: "string option"
  isResolved :: "bool option"
  al_createdAt :: int
  resolvedAt :: "int option"

record template_row =
  tp_id :: string
  tp_name :: string
  tp_description :: "string option"
  tp_category :: template_category
  templateData :: "json option"
  previewImage :: "string option"
  isPublic :: "bool option"
  tp_createdAt :: int
  tp_updatedAt :: int

record integration_row =
  ig_id :: string
  ig_name :: string
  ig_framework :: string
  ig_version :: "string option"
  ig_description :: "string option"
  ig_capabilities :: "json option"
  ig_configuration :: "json option"
  ig_isActive :: "bool option"
  ig_createdAt :: int
  ig_updatedAt :: int

record llm_row =
  lp_id :: string
  lp_name :: string
  lp_provider :: llm_provider_kind
  modelId :: string
  apiEndpoint :: "string option"
  lp_configuration :: "json option"
  lp_isDefault :: "bool option"
  lp_isActive :: "bool option"
  lp_createdAt :: int
  lp_updatedAt :: int

subsection \<open>The module state and the database behind it\<close>

text \<open>
  \<open>db_var\<close> is the module variable \<^verbatim>\<open>_db\<close>; \<open>DATABASE_URL\<close> and \<open>ownerOpenId\<close> are
  the environment; \<open>drizzle_throws\<close> says whether the constructor \<^verbatim>\<open>drizzle(url)\<close>
  throws; \<open>clock\<close> is what \<^verbatim>\<open>new Date()\<close> reads. The tables live in the database
  server, whether or not the module holds a handle.
\<close>

record world =
  db_var :: "db_handle option"
  DATABASE_URL :: "string option"
  drizzle_throws :: bool
  ownerOpenId :: string
  clock :: int
  users :: "user_row list"
  agents :: "agent_row list"
  workflows :: "workflow_row list"
  tasks :: "task_row list"
  agentMessages :: "message_row list"
  executionLogs :: "log_row list"
  agentMetrics :: "metric_row list"
  systemAlerts :: "alert_row list"
  workflowTemplates :: "template_row list"
  integrationModules :: "integration_row list"
  llmProviders :: "llm_row list"

definition getDb :: "world \<Rightarrow> db_handle option \<times> world" where
  "getDb w =
     (if db_var w = None \<and> str_or (DATABASE_URL w) [] \<noteq> [] then
        (if drizzle_throws w then (None, w\<lparr>db_var := None\<rparr>)
         else (Some (Drizzle (str_or (DATABASE_URL w) [])),
               w\<lparr>db_var := Some (Drizzle (str_or (DATABASE_URL w) []))\<rparr>))
      else (db_var w, w))"


text \<open>
  \<^verbatim>\<open>const db = await getDb(); if (!db) throw new Error("Database not available");\<close>
  opens the operations that write; the ones that read return a default instead.
\<close>

definition require_db ::
  "world \<Rightarrow> (world \<Rightarrow> (error + 'a) \<times> world) \<Rightarrow> (error + 'a) \<times> world" where
  "require_db w k =
     (case getDb w of
        (None, w1) \<Rightarrow> (Inl (Error ''Database not available''), w1)
      | (Some h, w1) \<Rightarrow> k w1)"

definition read_db :: "world \<Rightarrow> 'a \<Rightarrow> (world \<Rightarrow> 'a) \<Rightarrow> (error + 'a) \<times> world" where
  "read_db w dflt k =
     (case getDb w of
        (None, w1) \<Rightarrow> (Inr dflt, w1)
      | (Some h, w1) \<Rightarrow> (Inr (k w1), w1))"

subsection \<open>User operations\<close>

text \<open>In an \<^verbatim>\<open>InsertUser\<close> a text field is absent (\<open>None\<close>), null (\<open>Some None\<close>) or a
  string.\<close>

record insert_user =
  iu_openId :: string
  iu_name :: "string option option"
  iu_email :: "string option option"
  iu_loginMethod :: "string option option"
  iu_lastSignedIn :: "int option"
  iu_role :: "role option"

definition next_user_id :: "user_row list \<Rightarrow> nat" where
  "next_user_id rs = Suc (fold max (map u_id rs) 0)"

text \<open>\<^verbatim>\<open>insert ... on duplicate key update\<close>; the duplicate is detected on the unique
  column \<^verbatim>\<open>openId\<close>.\<close>

definition upsertUser :: "insert_user \<Rightarrow> world \<Rightarrow> (error + unit) \<times> world" where
  "upsertUser user w =
     (if iu_openId user = [] then (Inl (Error ''User openId is required for upsert''), w)
      else
        (case getDb w of
           (None, w1) \<Rightarrow> (Inr (), w1)
         | (Some h, w1) \<Rightarrow>
             (let now = clock w1;
                  role_set = (case iu_role user of
                                Some r \<Rightarrow> Some r
                              | None \<Rightarrow> if iu_openId user = ownerOpenId w1 then Some RoleAdmin
                                        else None);
                  values_lastSignedIn = obj_or (iu_lastSignedIn user) now;
                  updateSet_empty = (iu_name user = None \<and> iu_email user = None \<and>
                     iu_loginMethod user = None \<and> iu_lastSignedIn user = None \<and>
                     role_set = None);
                  set_lastSignedIn = (if updateSet_empty then Some now
                                      else iu_lastSignedIn user)
              in if iu_openId user \<in> set (map u_openId (users w1)) then
                   (Inr (), w1\<lparr>users := update_where (\<lambda>r. u_openId r = iu_openId user)
                      (\<lambda>r. r\<lparr>u_name := obj_or (iu_name user) (u_name r),
                              u_email := obj_or (iu_email user) (u_email r),
                              u_loginMethod := obj_or (iu_loginMethod user) (u_loginMethod r),
                              u_lastSignedIn := obj_or set_lastSignedIn (u_lastSignedIn r),
                              u_role := obj_or role_set (u_role r),
                              u_updatedAt := now\<rparr>) (users w1)\<rparr>)
                 else
                   (Inr (), w1\<lparr>users := users w1 @
                      [\<lparr>u_id = next_user_id (users w1),
                        u_openId = iu_openId user,
                        u_name = obj_or (iu_name user) None,
                        u_email = obj_or (iu_email user) None,
                        u_loginMethod = obj_or (iu_loginMethod user) None,
                        u_role = obj_or role_set RoleUser,
                        u_createdAt = now,
                        u_updatedAt = now,
                        u_lastSignedIn = values_lastSignedIn\<rparr>]\<rparr>))))"

definition getUserByOpenId :: "string \<Rightarrow> world \<Rightarrow> (error + user_row option) \<times> world" where
  "getUserByOpenId openId w =
     read_db w None (\<lambda>w1. first_row (filter (\<lambda>r. u_openId r = openId) (users w1)))"

subsection \<open>Agent registry operations\<close>

record agent_data =
  ad_name :: string
  ad_type :: agent_type
  ad_description :: "string option"
  ad_capabilities :: "string list option"
  ad_llmModel :: "string option"
  ad_parameters :: "json option"
  ad_integrationFramework :: "string option"
  ad_version :: "string option"

text \<open>The first argument of every creating operation is the identifier that
  \<^verbatim>\<open>nanoid(36)\<close> draws.\<close>

definition createAgent ::
  "string \<Rightarrow> agent_data \<Rightarrow> world \<Rightarrow> (error + string \<times> agent_data) \<times> world" where
  "createAgent nid agentData w =
     require_db w (\<lambda>w1.
       case insert_row a_id
              \<lparr>a_id = nid,
               a_name = ad_name agentData,
               a_type = ad_type agentData,
               a_description = ad_description agentData,
               a_capabilities = Some (obj_or (ad_capabilities agentData) []),
               a_status = Some Active,
               a_llmModel = ad_llmModel agentData,
               a_parameters = ad_parameters agentData,
               a_integrationFramework = ad_integrationFramework agentData,
               a_version = Some (str_or (ad_version agentData) ''1.0.0''),
               healthScore = Some 100,
               successRate = Some 100,
               totalExecutions = Some 0,
               failedExecutions = Some 0,
               a_createdAt = clock w1,
               a_updatedAt = clock w1\<rparr> (agents w1) of
         Inl e \<Rightarrow> (Inl e, w1)
       | Inr rs \<Rightarrow> (Inr (nid, agentData), w1\<lparr>agents := rs\<rparr>))"

definition getAgent :: "string \<Rightarrow> world \<Rightarrow> (error + agent_row option) \<times> world" where
  "getAgent agentId w =
     read_db w None (\<lambda>w1. first_row (filter (\<lambda>r. a_id r = agentId) (agents w1)))"

record agent_filters =
  af_status :: "string option"
  af_type :: "string option"

definition listAgents ::
  "agent_filters option \<Rightarrow> world \<Rightarrow> (error + agent_row list) \<times> world" where
  "listAgents filters w =
     read_db w [] (\<lambda>w1.
       if str_or (Option.bind filters af_status) [] \<noteq> [] then
         filter (\<lambda>r. map_option agent_status_str (a_status r) = Option.bind filters af_status)
           (agents w1)
       else if str_or (Option.bind filters af_type) [] \<noteq> [] then
         filter (\<lambda>r. Some (agent_type_str (a_type r)) = Option.bind filters af_type)
           (agents w1)
       else agents w1)"

definition updateAgentStatus ::
  "string \<Rightarrow> agent_status \<Rightarrow> world \<Rightarrow> (error + unit) \<times> world" where
  "updateAgentStatus agentId status w =
     require_db w (\<lambda>w1.
       (Inr (), w1\<lparr>agents := update_where (\<lambda>r. a_id r = agentId)
          (\<lambda>r. r\<lparr>a_status := Some status, a_updatedAt := clock w1\<rparr>) (agents w1)\<rparr>))"

record metrics_arg =
  successCount :: "real option"
  failureCount :: "real option"

definition updateAgentMetrics ::
  "string \<Rightarrow> metrics_arg \<Rightarrow> world \<Rightarrow> (error + unit) \<times> world" where
  "updateAgentMetrics agentId metrics w =
     require_db w (\<lambda>w1.
       case getAgent agentId w1 of
         (Inl e, w2) \<Rightarrow> (Inl e, w2)
       | (Inr None, w2) \<Rightarrow> (Inl (Error ''Agent not found''), w2)
       | (Inr (Some agent), w2) \<Rightarrow>
           (let total = num_or (totalExecutions agent) 0 + num_or (successCount metrics) 0
                          + num_or (failureCount metrics) 0;
                failed = num_or (failedExecutions agent) 0 + num_or (failureCount metrics) 0;
                rate = (if total > 0 then ((total - failed) / total) * 100 else 100);
                health = max 0 (min 100 rate)
            in (Inr (), w2\<lparr>agents := update_where (\<lambda>r. a_id r = agentId)
                  (\<lambda>r. r\<lparr>totalExecutions := Some total,
                          failedExecutions := Some failed,
                          successRate := Some rate,
                          healthScore := Some health,
                          a_updatedAt := clock w2\<rparr>) (agents w2)\<rparr>)))"

subsection \<open>Workflow operations\<close>

record workflow_data =
  wd_name :: string
  wd_description :: "string option"
  wd_orchestrationPattern :: pattern
  wd_nodes :: "json list option"
  wd_edges :: "json list option"
  wd_configuration :: "json option"
  wd_templateId :: "string option"

definition createWorkflow ::
  "string \<Rightarrow> workflow_data \<Rightarrow> world \<Rightarrow> (error + string \<times> workflow_data) \<times> world" where
  "createWorkflow nid workflowData w =
     require_db w (\<lambda>w1.
       case insert_row wf_id
              \<lparr>wf_id = nid,
               wf_name = wd_name workflowData,
               wf_description = wd_description workflowData,
               orchestrationPattern = wd_orchestrationPattern workflowData,
               nodes = wd_nodes workflowData,
               edges = wd_edges workflowData,
               wf_configuration = wd_configuration workflowData,
               wf_status = Some Draft,
               templateId = wd_templateId workflowData,
               wf_createdAt = clock w1,
               wf_updatedAt = clock w1\<rparr> (workflows w1) of
         Inl e \<Rightarrow> (Inl e, w1)
       | Inr rs \<Rightarrow> (Inr (nid, workflowData), w1\<lparr>workflows := rs\<rparr>))"

definition getWorkflow :: "string \<Rightarrow> world \<Rightarrow> (error + workflow_row option) \<times> world" where
  "getWorkflow workflowId w =
     read_db w None (\<lambda>w1. first_row (filter (\<lambda>r. wf_id r = workflowId) (workflows w1)))"

text \<open>The argument \<^verbatim>\<open>filters?: { status?: string }\<close>: absent, without a status, or
  with one.\<close>

definition listWorkflows ::
  "string option option \<Rightarrow> world \<Rightarrow> (error + workflow_row list) \<times> world" where
  "listWorkflows filters w =
     read_db w [] (\<lambda>w1.
       if str_or (Option.bind filters id) [] \<noteq> [] then
         filter (\<lambda>r. map_option workflow_status_str (wf_status r) = Option.bind filters id)
           (workflows w1)
       else workflows w1)"

definition updateWorkflowStatus ::
  "string \<Rightarrow> workflow_status \<Rightarrow> world \<Rightarrow> (error + unit) \<times> world" where
  "updateWorkflowStatus workflowId status w =
     require_db w (\<lambda>w1.
       (Inr (), w1\<lparr>workflows := update_where (\<lambda>r. wf_id r = workflowId)
          (\<lambda>r. r\<lparr>wf_status := Some status, wf_updatedAt := clock w1\<rparr>) (workflows w1)\<rparr>))"

subsection \<open>Task operations\<close>

record task_data =
  td_workflowId :: string
  td_input :: "json option"
  td_assignedAgents :: "string list option"
  td_priority :: "real option"

definition createTask ::
  "string \<Rightarrow> task_data \<Rightarrow> world \<Rightarrow> (error + string \<times> task_data) \<times> world" where
  "createTask nid taskData w =
     require_db w (\<lambda>w1.
       case insert_row t_id
              \<lparr>t_id = nid,
               t_workflowId = td_workflowId taskData,
               t_input = td_input taskData,
               assignedAgents = td_assignedAgents taskData,
               t_status = Some Pending,
               priority = Some (num_or (td_priority taskData) 5),
               t_result = None,
               consensusResult = None,
               consensusMethod = Some NoConsensus,
               t_executionTime = Some 0,
               t_createdAt = clock w1,
               t_updatedAt = None,
               startedAt = None,
               completedAt = None,
               retryCount = Some 0,
               errorLog = None,
               t_storageUrl = None\<rparr> (tasks w1) of
         Inl e \<Rightarrow> (Inl e, w1)
       | Inr rs \<Rightarrow> (Inr (nid, taskData), w1\<lparr>tasks := rs\<rparr>))"

definition getTask :: "string \<Rightarrow> world \<Rightarrow> (error + task_row option) \<times> world" where
  "getTask taskId w =
     read_db w None (\<lambda>w1. first_row (filter (\<lambda>r. t_id r = taskId) (tasks w1)))"

text \<open>The update object: \<^verbatim>\<open>status\<close> and \<^verbatim>\<open>updatedAt\<close> always, \<^verbatim>\<open>startedAt\<close> for
  running, \<^verbatim>\<open>completedAt\<close> for the three final statuses, \<^verbatim>\<open>result\<close> when one is given.
  The current status of the row is not read. (The field \<open>t_updatedAt\<close> holds what the
  code writes; the migration gives the table no such column.)\<close>

definition task_updates :: "task_status \<Rightarrow> json option \<Rightarrow> int \<Rightarrow> task_row \<Rightarrow> task_row" where
  "task_updates status result now r =
     (let r1 = r\<lparr>t_status := Some status, t_updatedAt := Some now\<rparr>;
          r2 = (if status = Running then r1\<lparr>startedAt := Some now\<rparr>
                else if status \<in> set [Completed, Failed, Timeout]
                     then r1\<lparr>completedAt := Some now\<rparr>
                else r1)
      in case result of
           None \<Rightarrow> r2
         | Some v \<Rightarrow> if js_truthy v then r2\<lparr>t_result := Some v\<rparr> else r2)"

definition updateTaskStatus ::
  "string \<Rightarrow> task_status \<Rightarrow> json option \<Rightarrow> world \<Rightarrow> (error + unit) \<times> world" where
  "updateTaskStatus taskId status result w =
     require_db w (\<lambda>w1.
       (Inr (), w1\<lparr>tasks := update_where (\<lambda>r. t_id r = taskId)
          (task_updates status result (clock w1)) (tasks w1)\<rparr>))"

subsection \<open>Message operations\<close>

record message_data =
  md_senderId :: string
  md_recipientId :: "string option"
  md_taskId :: "string option"
  md_messageType :: message_type
  md_content :: json
  md_metadata :: "json option"

definition createMessage ::
  "string \<Rightarrow> message_data \<Rightarrow> world \<Rightarrow> (error + string \<times> message_data) \<times> world" where
  "createMessage nid messageData w =
     require_db w (\<lambda>w1.
       case insert_row m_id
              \<lparr>m_id = nid,
               senderId = md_senderId messageData,
               recipientId = md_recipientId messageData,
               m_taskId = md_taskId messageData,
               messageType = md_messageType messageData,
               m_content = Some (md_content messageData),
               m_timestamp = clock w1,
               deliveryStatus = Some DeliveryPending,
               m_metadata = md_metadata messageData\<rparr> (agentMessages w1) of
         Inl e \<Rightarrow> (Inl e, w1)
       | Inr rs \<Rightarrow> (Inr (nid, messageData), w1\<lparr>agentMessages := rs\<rparr>))"

definition getConversationHistory ::
  "string \<Rightarrow> nat option \<Rightarrow> world \<Rightarrow> (error + message_row list) \<times> world" where
  "getConversationHistory taskId limit w =
     read_db w [] (\<lambda>w1.
       take (obj_or limit 100) (filter (\<lambda>r. m_taskId r = Some taskId) (agentMessages w1)))"

subsection \<open>Execution log operations\<close>

record log_data =
  ld_taskId :: string
  ld_agentId :: string
  ld_eventType :: event_type
  ld_level :: "log_level option"
  ld_message :: "string option"
  ld_metadata :: "json option"

definition createExecutionLog ::
  "string \<Rightarrow> log_data \<Rightarrow> world \<Rightarrow> (error + string \<times> log_data) \<times> world" where
  "createExecutionLog nid logData w =
     require_db w (\<lambda>w1.
       case insert_row l_id
              \<lparr>l_id = nid,
               l_taskId = ld_taskId logData,
               l_agentId = ld_agentId logData,
               eventType = ld_eventType logData,
               l_level = Some (obj_or (ld_level logData) Info),
               l_message = ld_message logData,
               l_metadata = ld_metadata logData,
               l_timestamp = clock w1,
               l_storageUrl = None\<rparr> (executionLogs w1) of
         Inl e \<Rightarrow> (Inl e, w1)
       | Inr rs \<Rightarrow> (Inr (nid, logData), w1\<lparr>executionLogs := rs\<rparr>))"

definition getTaskLogs ::
  "string \<Rightarrow> nat option \<Rightarrow> world \<Rightarrow> (error + log_row list) \<times> world" where
  "getTaskLogs taskId limit w =
     read_db w [] (\<lambda>w1.
       take (obj_or limit 1000) (filter (\<lambda>r. l_taskId r = taskId) (executionLogs w1)))"

subsection \<open>Alert operations\<close>

record alert_data =
  ald_alertType :: alert_type
  ald_severity :: "severity option"
  ald_title :: string
  ald_message :: "string option"
  ald_relatedAgentId :: "string option"
  ald_relatedTaskId :: "string option"

definition createAlert ::
  "string \<Rightarrow> alert_data \<Rightarrow> world \<Rightarrow> (error + string \<times> alert_data) \<times> world" where
  "createAlert nid alertData w =
     require_db w (\<lambda>w1.
       case insert_row al_id
              \<lparr>al_id = nid,
               alertType = ald_alertType alertData,
               al_severity = Some (obj_or (ald_severity alertData) SevInfo),
               al_title = ald_title alertData,
               al_message = ald_message alertData,
               relatedAgentId = ald_relatedAgentId alertData,
               relatedTaskId = ald_relatedTaskId alertData,
               isResolved = Some False,
               al_createdAt = clock w1,
               resolvedAt = None\<rparr> (systemAlerts w1) of
         Inl e \<Rightarrow> (Inl e, w1)
       | Inr rs \<Rightarrow> (Inr (nid, alertData), w1\<lparr>systemAlerts := rs\<rparr>))"

definition getUnresolvedAlerts :: "world \<Rightarrow> (error + alert_row list) \<times> world" where
  "getUnresolvedAlerts w =
     read_db w [] (\<lambda>w1. filter (\<lambda>r. isResolved r = Some False) (systemAlerts w1))"

subsection \<open>Metrics operations\<close>

record metric_data =
  mtd_agentId :: string
  mtd_taskId :: "string option"
  mtd_executionTime :: "real option"
  mtd_tokenUsage :: "real option"
  mtd_estimatedCost :: "real option"
  mtd_successFlag :: "bool option"

definition recordMetric ::
  "string \<Rightarrow> metric_data \<Rightarrow> world \<Rightarrow> (error + string \<times> metric_data) \<times> world" where
  "recordMetric nid metricData w =
     require_db w (\<lambda>w1.
       case insert_row mt_id
              \<lparr>mt_id = nid,
               mt_agentId = mtd_agentId metricData,
               mt_taskId = mtd_taskId metricData,
               executionTime = mtd_executionTime metricData,
               tokenUsage = mtd_tokenUsage metricData,
               estimatedCost = mtd_estimatedCost metricData,
               successFlag = mtd_successFlag metricData,
               mt_timestamp = clock w1\<rparr> (agentMetrics w1) of
         Inl e \<Rightarrow> (Inl e, w1)
       | Inr rs \<Rightarrow> (Inr (nid, metricData), w1\<lparr>agentMetrics := rs\<rparr>))"

definition getAgentMetrics ::
  "string \<Rightarrow> real option \<Rightarrow> world \<Rightarrow> (error + metric_row list) \<times> world" where
  "getAgentMetrics agentId hoursBack w =
     read_db w [] (\<lambda>w1.
       let cutoffTime = real_of_int (clock w1) - obj_or hoursBack 24 * 60 * 60 * 1000
       in filter (\<lambda>m. real_of_int (mt_timestamp m) > cutoffTime)
            (filter (\<lambda>r. mt_agentId r = agentId) (agentMetrics w1)))"

subsection \<open>Template, integration and LLM provider operations\<close>

definition getWorkflowTemplates ::
  "string option \<Rightarrow> world \<Rightarrow> (error + template_row list) \<times> world" where
  "getWorkflowTemplates category w =
     read_db w [] (\<lambda>w1.
       if str_or category [] \<noteq> [] then
         filter (\<lambda>r. Some (template_category_str (tp_category r)) = category)
           (workflowTemplates w1)
       else workflowTemplates w1)"

definition getTemplate :: "string \<Rightarrow> world \<Rightarrow> (error + template_row option) \<times> world" where
  "getTemplate tid w =
     read_db w None (\<lambda>w1. first_row (filter (\<lambda>r. tp_id r = tid) (workflowTemplates w1)))"

definition listIntegrations ::
  "bool option \<Rightarrow> world \<Rightarrow> (error + integration_row list) \<times> world" where
  "listIntegrations active w =
     read_db w [] (\<lambda>w1.
       case active of
         Some b \<Rightarrow> filter (\<lambda>r. ig_isActive r = Some b) (integrationModules w1)
       | None \<Rightarrow> integrationModules w1)"

definition getIntegration ::
  "string \<Rightarrow> world \<Rightarrow> (error + integration_row option) \<times> world" where
  "getIntegration framework w =
     read_db w None (\<lambda>w1.
       first_row (filter (\<lambda>r. ig_framework r = framework) (integrationModules w1)))"

definition listLLMProviders ::
  "bool option \<Rightarrow> world \<Rightarrow> (error + llm_row list) \<times> world" where
  "listLLMProviders active w =
     read_db w [] (\<lambda>w1.
       case active of
         Some b \<Rightarrow> filter (\<lambda>r. lp_isActive r = Some b) (llmProviders w1)
       | None \<Rightarrow> llmProviders w1)"

definition getDefaultLLMProvider :: "world \<Rightarrow> (error + llm_row option) \<times> world" where
  "getDefaultLLMProvider w =
     read_db w None (\<lambda>w1. first_row (filter (\<lambda>r. lp_isDefault r = Some True) (llmProviders w1)))"

subsection \<open>The exported operations as one interface\<close>

text \<open>
  A call of the layer is one of its exported functions with its arguments. An operation
  is a read of one row, a list read, or a write (it inserts or updates rows).
\<close>

datatype db_call =
    UpsertUser insert_user
  | GetUserByOpenId string
  | CreateAgent string agent_data
  | GetAgent string
  | ListAgents "agent_filters option"
  | UpdateAgentStatus string agent_status
  | UpdateAgentMetrics string metrics_arg
  | CreateWorkflow string workflow_data
  | GetWorkflow string
  | ListWorkflows "string option option"
  | UpdateWorkflowStatus string workflow_status
  | CreateTask string task_data
  | GetTask string
  | UpdateTaskStatus string task_status "json option"
  | CreateMessage string message_data
  | GetConversationHistory string "nat option"
  | CreateExecutionLog string log_data
  | GetTaskLogs string "nat option"
  | CreateAlert string alert_data
  | GetUnresolvedAlerts
  | RecordMetric string metric_data
  | GetAgentMetrics string "real option"
  | GetWorkflowTemplates "string option"
  | GetTemplate string
  | ListIntegrations "bool option"
  | GetIntegration string
  | ListLLMProviders "bool option"
  | GetDefaultLLMProvider

datatype op_kind = ReadOne | ReadList | Write

fun kind_of :: "db_call \<Rightarrow> op_kind" where
  "kind_of (UpsertUser u) = Write"
| "kind_of (GetUserByOpenId i) = ReadOne"
| "kind_of (CreateAgent n d) = Write"
| "kind_of (GetAgent i) = ReadOne"
| "kind_of (ListAgents f) = ReadList"
| "kind_of (UpdateAgentStatus i s) = Write"
| "kind_of (UpdateAgentMetrics i m) = Write"
| "kind_of (CreateWorkflow n d) = Write"
| "kind_of (GetWorkflow i) = ReadOne"
| "kind_of (ListWorkflows f) = ReadList"
| "kind_of (UpdateWorkflowStatus i s) = Write"
| "kind_of (CreateTask n d) = Write"
| "kind_of (GetTask i) = ReadOne"
| "kind_of (UpdateTaskStatus i s r) = Write"
| "kind_of (CreateMessage n d) = Write"
| "kind_of (GetConversationHistory i l) = ReadList"
| "kind_of (CreateExecutionLog n d) = Write"
| "kind_of (GetTaskLogs i l) = ReadList"
| "kind_of (CreateAlert n d) = Write"
| "kind_of GetUnresolvedAlerts = ReadList"
| "kind_of (RecordMetric n d) = Write"
| "kind_of (GetAgentMetrics i h) = ReadList"
| "kind_of (GetWorkflowTemplates c) = ReadList"
| "kind_of (GetTemplate i) = ReadOne"
| "kind_of (ListIntegrations a) = ReadList"
| "kind_of (GetIntegration f) = ReadOne"
| "kind_of (ListLLMProviders a) = ReadList"
| "kind_of GetDefaultLLMProvider = ReadOne"

text \<open>What a caller observes of a call: the exception, \<^verbatim>\<open>undefined\<close>, a row, the
  number of rows of a list, the identifier of the created record, or nothing.\<close>

datatype outcome =
    Thrown error
  | Undefined
  | OneRow
  | Rows nat
  | Created string
  | Void

definition one_row :: "(error + 'r option) \<times> world \<Rightarrow> outcome \<times> world" where
  "one_row x = (case x of
       (Inl e, w) \<Rightarrow> (Thrown e, w)
     | (Inr None, w) \<Rightarrow> (Undefined, w)
     | (Inr (Some r), w) \<Rightarrow> (OneRow, w))"

definition row_list :: "(error + 'r list) \<times> world \<Rightarrow> outcome \<times> world" where
  "row_list x = (case x of
       (Inl e, w) \<Rightarrow> (Thrown e, w)
     | (Inr rs, w) \<Rightarrow> (Rows (length rs), w))"

definition created :: "(error + string \<times> 'd) \<times> world \<Rightarrow> outcome \<times> world" where
  "created x = (case x of
       (Inl e, w) \<Rightarrow> (Thrown e, w)
     | (Inr (i, d), w) \<Rightarrow> (Created i, w))"

definition void :: "(error + unit) \<times> world \<Rightarrow> outcome \<times> world" where
  "void x = (case x of
       (Inl e, w) \<Rightarrow> (Thrown e, w)
     | (Inr u, w) \<Rightarrow> (Void, w))"

fun exec :: "db_call \<Rightarrow> world \<Rightarrow> outcome \<times> world" where
  "exec (UpsertUser u) w = void (upsertUser u w)"
| "exec (GetUserByOpenId i) w = one_row (getUserByOpenId i w)"
| "exec (CreateAgent n d) w = created (createAgent n d w)"
| "exec (GetAgent i) w = one_row (getAgent i w)"
| "exec (ListAgents f) w = row_list (listAgents f w)"
| "exec (UpdateAgentStatus i s) w = void (updateAgentStatus i s w)"
| "exec (UpdateAgentMetrics i m) w = void (updateAgentMetrics i m w)"
| "exec (CreateWorkflow n d) w = created (createWorkflow n d w)"
| "exec (GetWorkflow i) w = one_row (getWorkflow i w)"
| "exec (ListWorkflows f) w = row_list (listWorkflows f w)"
| "exec (UpdateWorkflowStatus i s) w = void (updateWorkflowStatus i s w)"
| "exec (CreateTask n d) w = created (createTask n d w)"
| "exec (GetTask i) w = one_row (getTask i w)"
| "exec (UpdateTaskStatus i s r) w = void (updateTaskStatus i s r w)"
| "exec (CreateMessage n d) w = created (createMessage n d w)"
| "exec (GetConversationHistory i l) w = row_list (getConversationHistory i l w)"
| "exec (CreateExecutionLog n d) w = created (createExecutionLog n d w)"
| "exec (GetTaskLogs i l) w = row_list (getTaskLogs i l w)"
| "exec (CreateAlert n d) w = created (createAlert n d w)"
| "exec GetUnresolvedAlerts w = row_list (getUnresolvedAlerts w)"
| "exec (RecordMetric n d) w = created (recordMetric n d w)"
| "exec (GetAgentMetrics i h) w = row_list (getAgentMetrics i h w)"
| "exec (GetWorkflowTemplates c) w = row_list (getWorkflowTemplates c w)"
| "exec (GetTemplate i) w = one_row (getTemplate i w)"
| "exec (ListIntegrations a) w = row_list (listIntegrations a w)"
| "exec (GetIntegration f) w = one_row (getIntegration f w)"
| "exec (ListLLMProviders a) w = row_list (listLLMProviders a w)"
| "exec GetDefaultLLMProvider w = one_row (getDefaultLLMProvider w)"

text \<open>A sequence of calls; a call that throws does not stop the calls after it (each is
  a request of its own).\<close>

fun exec_all :: "db_call list \<Rightarrow> world \<Rightarrow> world" where
  "exec_all [] w = w"
| "exec_all (c # cs) w = exec_all cs (snd (exec c w))"

section \<open>Second revision: \<^verbatim>\<open>src/unnamed/part_007\<close>\<close>

text \<open>
  Of the second revision the workflow creation and the consensus store are modelled,
  with the tables they write and the task table beside them. The pattern and the
  consensus type arrive as strings (the routers of this revision pass
  \<^verbatim>\<open>"round-robin"\<close>, \<^verbatim>\<open>"judge-based"\<close>) and are cast, not checked.
\<close>

subsection \<open>Values of type \<^verbatim>\<open>any\<close> and their JSON text\<close>

text \<open>
  This revision does no arithmetic; it tests numbers for truthiness and prints them. A
  number is therefore represented by the text \<^verbatim>\<open>Number.prototype.toString\<close> gives it
  (\<^verbatim>\<open>0.9\<close>, \<^verbatim>\<open>NaN\<close>, \<^verbatim>\<open>Infinity\<close>; both zeros print as \<^verbatim>\<open>0\<close>).
\<close>

datatype js_number = Number string

fun number_toString :: "js_number \<Rightarrow> string" where
  "number_toString (Number t) = t"

definition number_truthy :: "js_number \<Rightarrow> bool" where
  "number_truthy n = (number_toString n \<noteq> ''0'' \<and> number_toString n \<noteq> ''NaN'')"

definition number_or :: "js_number option \<Rightarrow> js_number \<Rightarrow> js_number" where
  "number_or x d = (case x of None \<Rightarrow> d | Some n \<Rightarrow> if number_truthy n then n else d)"

text \<open>
  The parameters typed \<^verbatim>\<open>any\<close> hold JSON values or a \<^verbatim>\<open>BigInt\<close>, which
  \<^verbatim>\<open>JSON.stringify\<close> refuses. The properties of an object are listed in the order the
  engine enumerates them.
\<close>

datatype js_value =
    VNull
  | VBool bool
  | VNum js_number
  | VBigInt int
  | VStr string
  | VArr "js_value list"
  | VObj "(string \<times> js_value) list"

fun value_truthy :: "js_value \<Rightarrow> bool" where
  "value_truthy VNull = False"
| "value_truthy (VBool b) = b"
| "value_truthy (VNum n) = number_truthy n"
| "value_truthy (VBigInt i) = (i \<noteq> 0)"
| "value_truthy (VStr s) = (s \<noteq> [])"
| "value_truthy (VArr xs) = True"
| "value_truthy (VObj kvs) = True"

definition any_or :: "js_value option \<Rightarrow> js_value \<Rightarrow> js_value" where
  "any_or x d = (case x of None \<Rightarrow> d | Some v \<Rightarrow> if value_truthy v then v else d)"

text \<open>\<^verbatim>\<open>QuoteJSONString\<close>: the quotation mark, the backslash and the control characters
  are escaped, every other character is copied.\<close>

definition hex_digit :: "nat \<Rightarrow> char" where
  "hex_digit n = ''0123456789abcdef'' ! n"

definition quote_char :: "char \<Rightarrow> string" where
  "quote_char c =
     (if c = CHR 0x22 then [CHR 0x5C, CHR 0x22]
      else if c = CHR 0x5C then [CHR 0x5C, CHR 0x5C]
      else if c = CHR 0x08 then [CHR 0x5C, CHR ''b'']
      else if c = CHR 0x09 then [CHR 0x5C, CHR ''t'']
      else if c = CHR 0x0A then [CHR 0x5C, CHR ''n'']
      else if c = CHR 0x0C then [CHR 0x5C, CHR ''f'']
      else if c = CHR 0x0D then [CHR 0x5C, CHR ''r'']
      else if (of_char c :: nat) < 0x20 then
        [CHR 0x5C, CHR ''u'', CHR ''0'', CHR ''0'',
         hex_digit (of_char c div 16), hex_digit (of_char c mod 16)]
      else [c])"

definition QuoteJSONString :: "string \<Rightarrow> string" where
  "QuoteJSONString s = CHR 0x22 # concat (map quote_char s) @ [CHR 0x22]"

text \<open>The members are serialised from left to right; the first exception ends the
  serialisation.\<close>

fun collect :: "(error + 'a) list \<Rightarrow> error + 'a list" where
  "collect [] = Inr []"
| "collect (Inl e # rs) = Inl e"
| "collect (Inr x # rs) = (case collect rs of Inl e \<Rightarrow> Inl e | Inr xs \<Rightarrow> Inr (x # xs))"

fun join :: "string list \<Rightarrow> string" where
  "join [] = []"
| "join [t] = t"
| "join (t # ts) = t @ '','' @ join ts"

fun JSON_stringify :: "js_value \<Rightarrow> error + string" where
  "JSON_stringify VNull = Inr ''null''"
| "JSON_stringify (VBool b) = Inr (if b then ''true'' else ''false'')"
| "JSON_stringify (VNum n) =
     Inr (if number_toString n \<in> set [''NaN'', ''Infinity'', ''-Infinity''] then ''null''
          else number_toString n)"
| "JSON_stringify (VBigInt i) = Inl (TypeError ''Do not know how to serialize a BigInt'')"
| "JSON_stringify (VStr s) = Inr (QuoteJSONString s)"
| "JSON_stringify (VArr xs) =
     (case collect (map JSON_stringify xs) of
        Inl e \<Rightarrow> Inl e
      | Inr ts \<Rightarrow> Inr (''['' @ join ts @ '']''))"
| "JSON_stringify (VObj kvs) =
     (case collect (map (\<lambda>kv. case JSON_stringify (snd kv) of
                                  Inl e \<Rightarrow> Inl e
                                | Inr t \<Rightarrow> Inr (QuoteJSONString (fst kv) @ '':'' @ t)) kvs) of
        Inl e \<Rightarrow> Inl e
      | Inr ts \<Rightarrow> Inr (''{'' @ join ts @ ''}''))"

subsection \<open>Rows and state\<close>

text \<open>A JSON column holds the text the code hands to the insert, the confidence the
  text of the number.\<close>

record workflow2_row =
  w2_id :: string
  w2_userId :: int
  w2_name :: string
  w2_description :: "string option"
  w2_orchestrationPattern :: string
  w2_nodes :: string
  w2_edges :: string
  w2_configuration :: string
  w2_status :: workflow_status
  w2_version :: nat

record task2_row =
  tk_id :: string
  tk_userId :: int
  tk_workflowId :: string
  tk_input :: string
  tk_assignedAgents :: string
  tk_priority :: int
  tk_status :: task_status
  tk_result :: string

record consensus_row =
  cr_id :: string
  cr_userId :: int
  cr_taskId :: string
  consensusType :: string
  agentResults :: string
  finalResult :: string
  confidence :: string

record world2 =
  db_var2 :: "db_handle option"
  DATABASE_URL2 :: "string option"
  drizzle_throws2 :: bool
  workflows2 :: "workflow2_row list"
  tasks2 :: "task2_row list"
  consensusResults :: "consensus_row list"

definition getDb2 :: "world2 \<Rightarrow> db_handle option \<times> world2" where
  "getDb2 w =
     (if db_var2 w = None \<and> str_or (DATABASE_URL2 w) [] \<noteq> [] then
        (if drizzle_throws2 w then (None, w\<lparr>db_var2 := None\<rparr>)
         else (Some (Drizzle (str_or (DATABASE_URL2 w) [])),
               w\<lparr>db_var2 := Some (Drizzle (str_or (DATABASE_URL2 w) []))\<rparr>))
      else (db_var2 w, w))"

definition require_db2 ::
  "world2 \<Rightarrow> (world2 \<Rightarrow> (error + 'a) \<times> world2) \<Rightarrow> (error + 'a) \<times> world2" where
  "require_db2 w k =
     (case getDb2 w of
        (None, w1) \<Rightarrow> (Inl (Error ''Database not available''), w1)
      | (Some h, w1) \<Rightarrow> k w1)"

subsection \<open>Workflow creation and the consensus store\<close>

record workflow2_data =
  w2d_userId :: int
  w2d_name :: string
  w2d_description :: "string option"
  w2d_orchestrationPattern :: string
  w2d_nodes :: "js_value option"
  w2d_edges :: "js_value option"
  w2d_configuration :: "js_value option"

text \<open>The identifier is \<^verbatim>\<open>"workflow-" + nanoid()\<close>; \<open>nid\<close> is what \<^verbatim>\<open>nanoid()\<close> draws.
  The row is built inside the \<^verbatim>\<open>try\<close>, field by field; an exception of
  \<^verbatim>\<open>JSON.stringify\<close> is logged and thrown again, and nothing is inserted.\<close>

definition createWorkflow2 ::
  "string \<Rightarrow> workflow2_data \<Rightarrow> world2 \<Rightarrow> (error + string \<times> workflow2_data) \<times> world2" where
  "createWorkflow2 nid workflowData w =
     require_db2 w (\<lambda>w1.
       case JSON_stringify (any_or (w2d_nodes workflowData) (VArr [])) of
         Inl e \<Rightarrow> (Inl e, w1)
       | Inr nodes_text \<Rightarrow>
       case JSON_stringify (any_or (w2d_edges workflowData) (VArr [])) of
         Inl e \<Rightarrow> (Inl e, w1)
       | Inr edges_text \<Rightarrow>
       case JSON_stringify (any_or (w2d_configuration workflowData) (VObj [])) of
         Inl e \<Rightarrow> (Inl e, w1)
       | Inr configuration_text \<Rightarrow>
       case insert_row w2_id
              \<lparr>w2_id = ''workflow-'' @ nid,
               w2_userId = w2d_userId workflowData,
               w2_name = w2d_name workflowData,
               w2_description = w2d_description workflowData,
               w2_orchestrationPattern = w2d_orchestrationPattern workflowData,
               w2_nodes = nodes_text,
               w2_edges = edges_text,
               w2_configuration = configuration_text,
               w2_status = Draft,
               w2_version = 1\<rparr> (workflows2 w1) of
         Inl e \<Rightarrow> (Inl e, w1)
       | Inr rs \<Rightarrow> (Inr (''workflow-'' @ nid, workflowData), w1\<lparr>workflows2 := rs\<rparr>))"

record consensus_data =
  cd_userId :: int
  cd_taskId :: string
  cd_consensusType :: string
  cd_agentResults :: "js_value option"
  cd_finalResult :: "js_value option"
  cd_confidence :: "js_number option"

definition saveConsensusResult ::
  "string \<Rightarrow> consensus_data \<Rightarrow> world2 \<Rightarrow> (error + string \<times> consensus_data) \<times> world2" where
  "saveConsensusResult nid consensusData w =
     require_db2 w (\<lambda>w1.
       case JSON_stringify (any_or (cd_agentResults consensusData) (VArr [])) of
         Inl e \<Rightarrow> (Inl e, w1)
       | Inr agentResults_text \<Rightarrow>
       case JSON_stringify (any_or (cd_finalResult consensusData) (VObj [])) of
         Inl e \<Rightarrow> (Inl e, w1)
       | Inr finalResult_text \<Rightarrow>
       case insert_row cr_id
              \<lparr>cr_id = ''consensus-'' @ nid,
               cr_userId = cd_userId consensusData,
               cr_taskId = cd_taskId consensusData,
               consensusType = cd_consensusType consensusData,
               agentResults = agentResults_text,
               finalResult = finalResult_text,
               confidence = number_toString
                 (number_or (cd_confidence consensusData) (Number ''0''))\<rparr>
              (consensusResults w1) of
         Inl e \<Rightarrow> (Inl e, w1)
       | Inr rs \<Rightarrow> (Inr (''consensus-'' @ nid, consensusData), w1\<lparr>consensusResults := rs\<rparr>))"

section \<open>Concrete states and inputs\<close>

definition online_world :: world where
  "online_world =
     \<lparr>db_var = None, DATABASE_URL = Some ''mysql://localhost/swarm'',
      drizzle_throws = False, ownerOpenId = ''owner'', clock = 1000,
      users = [], agents = [], workflows = [], tasks = [], agentMessages = [],
      executionLogs = [], agentMetrics = [], systemAlerts = [], workflowTemplates = [],
      integrationModules = [], llmProviders = []\<rparr>"

definition offline_world :: world where
  "offline_world = online_world\<lparr>DATABASE_URL := None\<rparr>"

definition online_world2 :: world2 where
  "online_world2 =
     \<lparr>db_var2 = None, DATABASE_URL2 = Some ''mysql://localhost/swarm'',
      drizzle_throws2 = False, workflows2 = [],
      tasks2 = [\<lparr>tk_id = ''task-1'', tk_userId = 1, tk_workflowId = ''workflow-1'',
                 tk_input = ''{}'', tk_assignedAgents = ''[]'', tk_priority = 1,
                 tk_status = Running, tk_result = ''{}''\<rparr>],
      consensusResults = []\<rparr>"

text \<open>Three agents return \<^verbatim>\<open>"A", "A", "B"\<close> with confidences 0.9, 0.6 and 0.95.\<close>

definition agent_result :: "string \<Rightarrow> string \<Rightarrow> string \<Rightarrow> js_value" where
  "agent_result agentId v c =
     VObj [(''agentId'', VStr agentId), (''value'', VStr v), (''confidence'', VNum (Number c))]"

definition aab_results :: js_value where
  "aab_results = VArr [agent_result ''agent-1'' ''A'' ''0.9'',
                       agent_result ''agent-2'' ''A'' ''0.6'',
                       agent_result ''agent-3'' ''B'' ''0.95'']"

definition voting_request :: "js_value option \<Rightarrow> consensus_data" where
  "voting_request results =
     \<lparr>cd_userId = 1, cd_taskId = ''task-1'', cd_consensusType = ''voting'',
      cd_agentResults = results, cd_finalResult = None, cd_confidence = None\<rparr>"

text \<open>The workflow of the repository's own test (\<^verbatim>\<open>src/unnamed/part_005\<close>): one node,
  and an edge to a node that is not there.\<close>

definition testWorkflowData :: workflow_data where
  "testWorkflowData =
     \<lparr>wd_name = ''TestWorkflow'', wd_description = Some ''Test workflow'',
      wd_orchestrationPattern = Sequential,
      wd_nodes = Some [JObj [(''id'', JStr ''node1''), (''type'', JStr ''agent'')]],
      wd_edges = Some [JObj [(''source'', JStr ''node1''), (''target'', JStr ''node2'')]],
      wd_configuration = Some (JObj [(''timeout'', JNum 3600)]),
      wd_templateId = None\<rparr>"

definition testTaskData :: task_data where
  "testTaskData =
     \<lparr>td_workflowId = ''workflow-123'',
      td_input = Some (JObj [(''query'', JStr ''test query'')]),
      td_assignedAgents = Some [''agent-1'', ''agent-2''],
      td_priority = Some 1\<rparr>"

definition testMessageData :: message_data where
  "testMessageData =
     \<lparr>md_senderId = ''agent-1'', md_recipientId = Some ''agent-2'',
      md_taskId = Some ''task-1'', md_messageType = Request,
      md_content = JObj [(''action'', JStr ''analyze'')], md_metadata = None\<rparr>"

definition test_user :: insert_user where
  "test_user =
     \<lparr>iu_openId = ''open-id-1'', iu_name = Some (Some ''Ada''), iu_email = None,
      iu_loginMethod = None, iu_lastSignedIn = None, iu_role = None\<rparr>"

definition completion_alert :: alert_data where
  "completion_alert =
     \<lparr>ald_alertType = Task_completion, ald_severity = None, ald_title = ''Task completed'',
      ald_message = None, ald_relatedAgentId = None, ald_relatedTaskId = Some ''task-1''\<rparr>"

text \<open>The property \<open>k\<close> of a JSON object (\<^verbatim>\<open>undefined\<close> is \<open>None\<close>).\<close>

fun json_field :: "string \<Rightarrow> json \<Rightarrow> json option" where
  "json_field k (JObj kvs) = map_of kvs k"
| "json_field k v = None"

definition testWorkflow2Data :: workflow2_data where
  "testWorkflow2Data =
     \<lparr>w2d_userId = 1, w2d_name = ''Test Workflow'',
      w2d_description = Some ''Test workflow for database validation'',
      w2d_orchestrationPattern = ''sequential'',
      w2d_nodes = Some (VArr [VObj [(''id'', VStr ''node-1''), (''type'', VStr ''agent'')]]),
      w2d_edges = Some (VArr []), w2d_configuration = None\<rparr>"

definition task_world :: world where
  "task_world = snd (createTask ''task-1'' testTaskData online_world)"

definition message_world :: world where
  "message_world = snd (createMessage ''msg-1'' testMessageData task_world)"

text \<open>The final statuses: the ones for which \<^verbatim>\<open>updateTaskStatus\<close> records
  \<^verbatim>\<open>completedAt\<close>.\<close>

definition terminal :: "task_status \<Rightarrow> bool" where
  "terminal s = (s \<in> set [Completed, Failed, Timeout])"

section \<open>Properties of the database layer\<close>

subsection \<open>Obtaining the handle\<close>

lemma getDb_snd: "snd (getDb w) = w\<lparr>db_var := fst (getDb w)\<rparr>"
  by (simp add: getDb_def)

lemma getDb_unavailable: "fst (getDb w) = None \<Longrightarrow> getDb w = (None, w)"
  by (auto simp add: getDb_def split: if_splits)

lemma getDb_idem: "fst (getDb w) = Some h \<Longrightarrow> getDb (snd (getDb w)) = (Some h, snd (getDb w))"
  by (auto simp add: getDb_def split: if_splits)

lemma require_db_unavailable:
  "fst (getDb w) = None \<Longrightarrow> require_db w k = (Inl (Error ''Database not available''), w)"
  by (simp add: require_db_def getDb_unavailable)

lemma read_db_unavailable: "fst (getDb w) = None \<Longrightarrow> read_db w d k = (Inr d, w)"
  by (simp add: read_db_def getDb_unavailable)

lemma require_db_available:
  "fst (getDb w) = Some h \<Longrightarrow> require_db w k = k (snd (getDb w))"
  by (cases "getDb w") (simp add: require_db_def)

lemma getDb2_snd: "snd (getDb2 w) = w\<lparr>db_var2 := fst (getDb2 w)\<rparr>"
  by (simp add: getDb2_def)

lemma getDb2_unavailable: "fst (getDb2 w) = None \<Longrightarrow> getDb2 w = (None, w)"
  by (auto simp add: getDb2_def split: if_splits)

lemma require_db2_unavailable:
  "fst (getDb2 w) = None \<Longrightarrow> require_db2 w k = (Inl (Error ''Database not available''), w)"
  by (simp add: require_db2_def getDb2_unavailable)

lemma require_db2_available:
  "fst (getDb2 w) = Some h \<Longrightarrow> require_db2 w k = k (snd (getDb2 w))"
  by (cases "getDb2 w") (simp add: require_db2_def)

lemma read_db_available:
  "fst (getDb w) = Some h \<Longrightarrow> read_db w d k = (Inr (k (snd (getDb w))), snd (getDb w))"
  by (cases "getDb w") (simp add: read_db_def)


subsection \<open>Workflows are created as drafts\<close>

text \<open>
  Claim C8. Every successful workflow creation, in either revision of the layer, appends
  exactly one workflow record; that record carries the returned identifier and the
  status draft, whatever the pattern, nodes, edges and configuration of the input.
\<close>

theorem createWorkflow_status_draft:
  "(fst (createWorkflow nid d w) = Inr r \<longrightarrow>
      map (\<lambda>x. (wf_id x, wf_status x)) (workflows (snd (createWorkflow nid d w)))
        = map (\<lambda>x. (wf_id x, wf_status x)) (workflows w) @ [(fst r, Some Draft)])
   \<and> (fst (createWorkflow2 nid2 d2 w2) = Inr r2 \<longrightarrow>
      map (\<lambda>x. (w2_id x, w2_status x)) (workflows2 (snd (createWorkflow2 nid2 d2 w2)))
        = map (\<lambda>x. (w2_id x, w2_status x)) (workflows2 w2) @ [(fst r2, Draft)])"
proof (intro conjI impI)
  assume ok: "fst (createWorkflow nid d w) = Inr r"
  show "map (\<lambda>x. (wf_id x, wf_status x)) (workflows (snd (createWorkflow nid d w)))
        = map (\<lambda>x. (wf_id x, wf_status x)) (workflows w) @ [(fst r, Some Draft)]"
  proof (cases "fst (getDb w)")
    case None
    with ok show ?thesis by (simp add: createWorkflow_def require_db_unavailable)
  next
    case (Some h)
    have tbl: "workflows (snd (getDb w)) = workflows w"
      by (simp add: getDb_snd)
    from ok Some show ?thesis
      by (simp add: createWorkflow_def require_db_available insert_row_def tbl
               split: if_splits)
         auto
  qed
next
  assume ok: "fst (createWorkflow2 nid2 d2 w2) = Inr r2"
  show "map (\<lambda>x. (w2_id x, w2_status x)) (workflows2 (snd (createWorkflow2 nid2 d2 w2)))
        = map (\<lambda>x. (w2_id x, w2_status x)) (workflows2 w2) @ [(fst r2, Draft)]"
  proof (cases "fst (getDb2 w2)")
    case None
    with ok show ?thesis by (simp add: createWorkflow2_def require_db2_unavailable)
  next
    case (Some h)
    have tbl: "workflows2 (snd (getDb2 w2)) = workflows2 w2"
      by (simp add: getDb2_snd)
    from ok Some show ?thesis
      by (auto simp add: createWorkflow2_def require_db2_available insert_row_def tbl
               split: if_splits sum.splits)
  qed
qed

theorem createWorkflow_status_draft_witness:
  "fst (createWorkflow ''wf-1'' testWorkflowData online_world) = Inr (''wf-1'', testWorkflowData)
   \<and> map (\<lambda>x. (wf_id x, wf_status x))
        (workflows (snd (createWorkflow ''wf-1'' testWorkflowData online_world)))
       = [(''wf-1'', Some Draft)]
   \<and> fst (createWorkflow2 ''1'' testWorkflow2Data online_world2)
       = Inr (''workflow-1'', testWorkflow2Data)
   \<and> map (\<lambda>x. (w2_id x, w2_status x))
        (workflows2 (snd (createWorkflow2 ''1'' testWorkflow2Data online_world2)))
       = [(''workflow-1'', Draft)]"
proof -
  have ok: "fst (createWorkflow ''wf-1'' testWorkflowData online_world)
              = Inr (''wf-1'', testWorkflowData)"
    by (simp add: createWorkflow_def require_db_def getDb_def insert_row_def
          online_world_def str_or_def)
  have ok2: "fst (createWorkflow2 ''1'' testWorkflow2Data online_world2)
              = Inr (''workflow-1'', testWorkflow2Data)"
    by (simp add: createWorkflow2_def require_db2_def getDb2_def insert_row_def
          online_world2_def str_or_def testWorkflow2Data_def any_or_def)
  have e: "workflows online_world = []" "workflows2 online_world2 = []"
    by (simp_all add: online_world_def online_world2_def)
  from ok ok2 e createWorkflow_status_draft
         [of "''wf-1''" testWorkflowData online_world "(''wf-1'', testWorkflowData)"
             "''1''" testWorkflow2Data online_world2 "(''workflow-1'', testWorkflow2Data)"]
  show ?thesis by simp
qed

subsection \<open>The handle, once obtained\<close>

lemma getDb_connected: "db_var w = Some h \<Longrightarrow> getDb w = (Some h, w)"
  by (simp add: getDb_def)

lemma db_var_after_getDb: "db_var (snd (getDb w)) = fst (getDb w)"
  by (simp add: getDb_snd)

lemma getDb_fields:
  "users (snd (getDb w)) = users w"
  "agents (snd (getDb w)) = agents w"
  "workflows (snd (getDb w)) = workflows w"
  "tasks (snd (getDb w)) = tasks w"
  "agentMessages (snd (getDb w)) = agentMessages w"
  "executionLogs (snd (getDb w)) = executionLogs w"
  "agentMetrics (snd (getDb w)) = agentMetrics w"
  "systemAlerts (snd (getDb w)) = systemAlerts w"
  "workflowTemplates (snd (getDb w)) = workflowTemplates w"
  "integrationModules (snd (getDb w)) = integrationModules w"
  "llmProviders (snd (getDb w)) = llmProviders w"
  "clock (snd (getDb w)) = clock w"
  "ownerOpenId (snd (getDb w)) = ownerOpenId w"
  "DATABASE_URL (snd (getDb w)) = DATABASE_URL w"
  "drizzle_throws (snd (getDb w)) = drizzle_throws w"
  by (simp_all add: getDb_def)

subsection \<open>The layer without a database\<close>

lemma upsertUser_unavailable:
  "fst (getDb w) = None \<Longrightarrow>
   upsertUser u w = (if iu_openId u = [] then Inl (Error ''User openId is required for upsert'')
                     else Inr (), w)"
  by (simp add: upsertUser_def getDb_unavailable)

text \<open>
  Claim C10 (as amended). While \<^verbatim>\<open>getDb\<close> returns null, no call of the layer changes
  any state; every read of one row returns \<^verbatim>\<open>undefined\<close>, every list read returns
  the empty list, and every write throws \<^verbatim>\<open>"Database not available"\<close>, except
  \<^verbatim>\<open>upsertUser\<close>, which returns without an error (or throws
  \<^verbatim>\<open>"User openId is required for upsert"\<close> when the openId is empty).
\<close>

theorem database_unavailable:
  assumes "fst (getDb w) = None"
  shows "snd (exec c w) = w
       \<and> (kind_of c = ReadOne \<longrightarrow> fst (exec c w) = Undefined)
       \<and> (kind_of c = ReadList \<longrightarrow> fst (exec c w) = Rows 0)
       \<and> (kind_of c = Write \<longrightarrow>
            fst (exec c w) =
              (case c of
                 UpsertUser u \<Rightarrow>
                   if iu_openId u = [] then Thrown (Error ''User openId is required for upsert'')
                   else Void
               | _ \<Rightarrow> Thrown (Error ''Database not available'')))"
  using assms
  by (cases c)
     (simp_all add: require_db_unavailable read_db_unavailable upsertUser_unavailable
        one_row_def row_list_def created_def void_def
        getUserByOpenId_def createAgent_def getAgent_def listAgents_def
        updateAgentStatus_def updateAgentMetrics_def createWorkflow_def getWorkflow_def
        listWorkflows_def updateWorkflowStatus_def createTask_def getTask_def
        updateTaskStatus_def createMessage_def getConversationHistory_def
        createExecutionLog_def getTaskLogs_def createAlert_def getUnresolvedAlerts_def
        recordMetric_def getAgentMetrics_def getWorkflowTemplates_def getTemplate_def
        listIntegrations_def getIntegration_def listLLMProviders_def
        getDefaultLLMProvider_def)

theorem database_unavailable_witness:
  "fst (getDb offline_world) = None
   \<and> exec (GetTask ''task-1'') offline_world = (Undefined, offline_world)
   \<and> exec (GetTaskLogs ''task-1'' None) offline_world = (Rows 0, offline_world)
   \<and> exec (CreateTask ''task-1'' testTaskData) offline_world
        = (Thrown (Error ''Database not available''), offline_world)
   \<and> exec (UpsertUser test_user) offline_world = (Void, offline_world)"
proof -
  have off: "fst (getDb offline_world) = None"
    by (simp add: getDb_def offline_world_def online_world_def str_or_def)
  have u: "iu_openId test_user \<noteq> []" by (simp add: test_user_def)
  from database_unavailable [OF off, of "GetTask ''task-1''"]
  have a: "exec (GetTask ''task-1'') offline_world = (Undefined, offline_world)"
    by (simp add: prod_eq_iff)
  from database_unavailable [OF off, of "GetTaskLogs ''task-1'' None"]
  have b: "exec (GetTaskLogs ''task-1'' None) offline_world = (Rows 0, offline_world)"
    by (simp add: prod_eq_iff)
  from database_unavailable [OF off, of "CreateTask ''task-1'' testTaskData"]
  have c: "exec (CreateTask ''task-1'' testTaskData) offline_world
        = (Thrown (Error ''Database not available''), offline_world)"
    by (simp add: prod_eq_iff)
  from database_unavailable [OF off, of "UpsertUser test_user"] u
  have d: "exec (UpsertUser test_user) offline_world = (Void, offline_world)"
    by (simp add: prod_eq_iff)
  from off a b c d show ?thesis by simp
qed

theorem upsertUser_unavailable_counterexample:
  "fst (getDb offline_world) = None
   \<and> kind_of (UpsertUser test_user) = Write
   \<and> upsertUser test_user offline_world = (Inr (), offline_world)
   \<and> fst (exec (UpsertUser test_user) offline_world)
        \<noteq> Thrown (Error ''Database not available'')"
  by (simp add: upsertUser_def void_def getDb_def offline_world_def online_world_def
        str_or_def test_user_def)

subsection \<open>Task status updates\<close>

lemma require_db_cases:
  "require_db w k =
     (if fst (getDb w) = None then (Inl (Error ''Database not available''), w)
      else k (snd (getDb w)))"
  by (cases "fst (getDb w)") (simp_all add: require_db_unavailable require_db_available)

lemma read_db_cases:
  "read_db w d k =
     (if fst (getDb w) = None then (Inr d, w)
      else (Inr (k (snd (getDb w))), snd (getDb w)))"
  by (cases "fst (getDb w)") (simp_all add: read_db_unavailable read_db_available)

lemma getDb_again:
  assumes "fst (getDb w) \<noteq> None"
  shows "fst (getDb (snd (getDb w))) \<noteq> None"
proof -
  from assms obtain h where "fst (getDb w) = Some h" by auto
  then have "db_var (snd (getDb w)) = Some h" by (simp add: db_var_after_getDb)
  from getDb_connected [OF this] show ?thesis by simp
qed

lemma task_updates_fields:
  "t_status (task_updates st res now r) = Some st"
  "retryCount (task_updates st res now r) = retryCount r"
  "t_id (task_updates st res now r) = t_id r"
  by (simp_all add: task_updates_def Let_def split: option.split)

lemma updateTaskStatus_available:
  "fst (getDb w) \<noteq> None \<Longrightarrow>
   updateTaskStatus tid st res w =
     (Inr (), (snd (getDb w))\<lparr>tasks := update_where (\<lambda>r. t_id r = tid)
                 (task_updates st res (clock w)) (tasks w)\<rparr>)"
  by (simp add: updateTaskStatus_def require_db_cases getDb_fields)

lemma getDb_tasks_update:
  "fst (getDb (w\<lparr>tasks := ts\<rparr>)) = fst (getDb w)"
  by (simp add: getDb_def)

lemma status_updates_run:
  "fst (getDb w) \<noteq> None \<Longrightarrow>
   map retryCount (tasks (exec_all (map (\<lambda>u. UpdateTaskStatus tid (fst u) (snd u)) ups) w))
     = map retryCount (tasks w)
   \<and> map t_id (tasks (exec_all (map (\<lambda>u. UpdateTaskStatus tid (fst u) (snd u)) ups) w))
     = map t_id (tasks w)
   \<and> (ups \<noteq> [] \<longrightarrow>
       map t_status (tasks (exec_all (map (\<lambda>u. UpdateTaskStatus tid (fst u) (snd u)) ups) w))
         = map (\<lambda>r. if t_id r = tid then Some (fst (last ups)) else t_status r) (tasks w))"
proof (induction ups arbitrary: w)
  case Nil
  show ?case by simp
next
  case (Cons u us)
  let ?w1 = "snd (exec (UpdateTaskStatus tid (fst u) (snd u)) w)"
  have w1: "?w1 = (snd (getDb w))\<lparr>tasks := update_where (\<lambda>r. t_id r = tid)
                 (task_updates (fst u) (snd u) (clock w)) (tasks w)\<rparr>"
    using Cons.prems by (simp add: updateTaskStatus_available void_def)
  have av: "fst (getDb ?w1) \<noteq> None"
    unfolding w1 using Cons.prems by (simp add: getDb_tasks_update getDb_again)
  have t1: "tasks ?w1 = update_where (\<lambda>r. t_id r = tid)
                 (task_updates (fst u) (snd u) (clock w)) (tasks w)"
    unfolding w1 by simp
  have r1: "map retryCount (tasks ?w1) = map retryCount (tasks w)"
    unfolding t1 by (simp add: update_where_def task_updates_fields)
  have i1: "map t_id (tasks ?w1) = map t_id (tasks w)"
    unfolding t1 by (simp add: update_where_def task_updates_fields)
  have s1: "map t_status (tasks ?w1)
              = map (\<lambda>r. if t_id r = tid then Some (fst u) else t_status r) (tasks w)"
    unfolding t1 by (simp add: update_where_def task_updates_fields)
  have s2: "map (\<lambda>r. if t_id r = tid then Some x else t_status r) (tasks ?w1)
              = map (\<lambda>r. if t_id r = tid then Some x else t_status r) (tasks w)" for x
    unfolding t1 by (simp add: update_where_def task_updates_fields)
  note ih = Cons.IH [OF av]
  show ?case
  proof (cases "us = []")
    case True
    then show ?thesis using r1 i1 s1 by simp
  next
    case False
    then show ?thesis using ih r1 i1 s2 by simp
  qed
qed

lemma createTask_retryCount:
  assumes ok: "fst (createTask nid d w) = Inr r"
  shows "map retryCount (tasks (snd (createTask nid d w))) = map retryCount (tasks w) @ [Some 0]"
proof (cases "fst (getDb w) = None")
  case True
  with ok show ?thesis by (simp add: createTask_def require_db_cases)
next
  case False
  with ok show ?thesis
    by (simp add: createTask_def require_db_cases insert_row_def getDb_fields
          split: if_splits)
qed

text \<open>
  Claim C2 (as amended). With the database available, a sequence of status updates
  applied to a task leaves the task with the status of the last update, whatever the
  statuses before it: no update is rejected, so a task can go from a final status back
  to pending or running. A task is created with retry count 0, and the status updates
  change the retry count of no task.
\<close>

theorem status_updates_overwrite:
  assumes "fst (getDb w) \<noteq> None" and "ups \<noteq> []"
  shows "map t_status (tasks (exec_all (map (\<lambda>u. UpdateTaskStatus tid (fst u) (snd u)) ups) w))
           = map (\<lambda>r. if t_id r = tid then Some (fst (last ups)) else t_status r) (tasks w)
       \<and> map retryCount (tasks (exec_all (map (\<lambda>u. UpdateTaskStatus tid (fst u) (snd u)) ups) w))
           = map retryCount (tasks w)
       \<and> (fst (createTask nid d w) = Inr r \<longrightarrow>
            map retryCount (tasks (snd (createTask nid d w)))
              = map retryCount (tasks w) @ [Some 0])"
  using status_updates_run [OF assms(1), of tid ups] assms(2) createTask_retryCount
  by simp

theorem status_updates_overwrite_witness:
  "fst (getDb task_world) \<noteq> None
   \<and> [(Running, None), (Completed, None), (Pending, None)] \<noteq> []
   \<and> map t_status (tasks task_world) = [Some Pending]
   \<and> map t_status (tasks (exec_all
        [UpdateTaskStatus ''task-1'' Running None, UpdateTaskStatus ''task-1'' Completed None,
         UpdateTaskStatus ''task-1'' Pending None] task_world)) = [Some Pending]
   \<and> map retryCount (tasks (exec_all
        [UpdateTaskStatus ''task-1'' Running None, UpdateTaskStatus ''task-1'' Completed None,
         UpdateTaskStatus ''task-1'' Pending None] task_world)) = [Some 0]
   \<and> fst (createTask ''task-2'' testTaskData task_world) = Inr (''task-2'', testTaskData)
   \<and> map retryCount (tasks (snd (createTask ''task-2'' testTaskData task_world)))
        = [Some 0, Some 0]"
proof -
  have db: "fst (getDb task_world) \<noteq> None"
    by (simp add: task_world_def createTask_def require_db_def insert_row_def getDb_def
          online_world_def str_or_def)
  have ne: "[(Running, None), (Completed, None), (Pending, None :: json option)] \<noteq> []"
    by simp
  have t: "map t_status (tasks task_world) = [Some Pending]"
     "map retryCount (tasks task_world) = [Some 0]" "map t_id (tasks task_world) = [''task-1'']"
    by (simp_all add: task_world_def createTask_def require_db_def insert_row_def getDb_def
          online_world_def str_or_def)
  have "set (map t_id (tasks task_world)) = {''task-1''}" using t(3) by simp
  then have ids: "t_id ` set (tasks task_world) = {''task-1''}" by simp
  have c: "fst (createTask ''task-2'' testTaskData task_world) = Inr (''task-2'', testTaskData)"
    using ids db by (simp add: createTask_def require_db_cases insert_row_def getDb_fields)
  from status_updates_overwrite [OF db ne, of "''task-1''" "''task-2''" testTaskData
         "(''task-2'', testTaskData)"] t db c
  show ?thesis by (auto simp add: map_eq_Cons_conv)
qed

theorem status_regression_counterexample:
  "map t_status (tasks (exec_all
        [UpdateTaskStatus ''task-1'' Running None, UpdateTaskStatus ''task-1'' Completed None]
        task_world)) = [Some Completed]
   \<and> terminal Completed
   \<and> map t_status (tasks (exec_all
        [UpdateTaskStatus ''task-1'' Running None, UpdateTaskStatus ''task-1'' Completed None,
         UpdateTaskStatus ''task-1'' Pending None] task_world)) = [Some Pending]"
  by (simp add: task_world_def createTask_def updateTaskStatus_def require_db_def
        insert_row_def getDb_def online_world_def str_or_def void_def update_where_def
        task_updates_def terminal_def testTaskData_def num_or_def)

subsection \<open>Workflow creation and the graph\<close>

lemma createWorkflow_available:
  assumes "fst (getDb w) \<noteq> None" and "nid \<notin> set (map wf_id (workflows w))"
  shows "createWorkflow nid d w =
     (Inr (nid, d), (snd (getDb w))\<lparr>workflows := workflows w @
        [\<lparr>wf_id = nid, wf_name = wd_name d, wf_description = wd_description d,
          orchestrationPattern = wd_orchestrationPattern d, nodes = wd_nodes d,
          edges = wd_edges d, wf_configuration = wd_configuration d,
          wf_status = Some Draft, templateId = wd_templateId d,
          wf_createdAt = clock w, wf_updatedAt = clock w\<rparr>]\<rparr>)"
  using assms by (simp add: createWorkflow_def require_db_cases insert_row_def getDb_fields)

lemma createWorkflow_failure:
  assumes "fst (createWorkflow nid d w) = Inl e"
  shows "(e = Error ''Database not available'' \<or> e = DriverError ''ER_DUP_ENTRY'')
       \<and> workflows (snd (createWorkflow nid d w)) = workflows w"
  using assms
  by (auto simp add: createWorkflow_def require_db_cases insert_row_def getDb_fields
        split: if_splits)

text \<open>
  Claim C3 (as amended). Workflow creation does not look at the graph: with the
  database available and an unused identifier it succeeds for every input and stores
  the nodes, the edges and the pattern as given. It fails only with
  \<^verbatim>\<open>"Database not available"\<close> or with the driver's duplicate-key error, never with a
  validation error, and a failed creation leaves the workflows unchanged.
\<close>

theorem createWorkflow_no_validation:
  "(fst (getDb w) \<noteq> None \<and> nid \<notin> set (map wf_id (workflows w)) \<longrightarrow>
      fst (createWorkflow nid d w) = Inr (nid, d)
      \<and> map (\<lambda>x. (wf_id x, orchestrationPattern x, nodes x, edges x))
           (workflows (snd (createWorkflow nid d w)))
         = map (\<lambda>x. (wf_id x, orchestrationPattern x, nodes x, edges x)) (workflows w)
           @ [(nid, wd_orchestrationPattern d, wd_nodes d, wd_edges d)])
   \<and> (fst (createWorkflow nid d w) = Inl e \<longrightarrow>
        (e = Error ''Database not available'' \<or> e = DriverError ''ER_DUP_ENTRY'')
        \<and> workflows (snd (createWorkflow nid d w)) = workflows w)"
proof (intro conjI impI)
  assume a: "fst (getDb w) \<noteq> None \<and> nid \<notin> set (map wf_id (workflows w))"
  then have eq: "createWorkflow nid d w =
     (Inr (nid, d), (snd (getDb w))\<lparr>workflows := workflows w @
        [\<lparr>wf_id = nid, wf_name = wd_name d, wf_description = wd_description d,
          orchestrationPattern = wd_orchestrationPattern d, nodes = wd_nodes d,
          edges = wd_edges d, wf_configuration = wd_configuration d,
          wf_status = Some Draft, templateId = wd_templateId d,
          wf_createdAt = clock w, wf_updatedAt = clock w\<rparr>]\<rparr>)"
    by (simp add: createWorkflow_available)
  show "fst (createWorkflow nid d w) = Inr (nid, d)" by (simp add: eq)
  show "map (\<lambda>x. (wf_id x, orchestrationPattern x, nodes x, edges x))
           (workflows (snd (createWorkflow nid d w)))
         = map (\<lambda>x. (wf_id x, orchestrationPattern x, nodes x, edges x)) (workflows w)
           @ [(nid, wd_orchestrationPattern d, wd_nodes d, wd_edges d)]"
    by (simp add: eq)
next
  assume f: "fst (createWorkflow nid d w) = Inl e"
  from createWorkflow_failure [OF f]
  show "e = Error ''Database not available'' \<or> e = DriverError ''ER_DUP_ENTRY''"
    and "workflows (snd (createWorkflow nid d w)) = workflows w"
    by simp_all
qed

theorem createWorkflow_no_validation_witness:
  "fst (getDb online_world) \<noteq> None \<and> ''wf-1'' \<notin> set (map wf_id (workflows online_world))
   \<and> fst (createWorkflow ''wf-1'' testWorkflowData online_world)
        = Inr (''wf-1'', testWorkflowData)
   \<and> map (\<lambda>x. (wf_id x, orchestrationPattern x, nodes x, edges x))
        (workflows (snd (createWorkflow ''wf-1'' testWorkflowData online_world)))
       = [(''wf-1'', Sequential, wd_nodes testWorkflowData, wd_edges testWorkflowData)]
   \<and> fst (createWorkflow ''wf-1'' testWorkflowData offline_world)
        = Inl (Error ''Database not available'')
   \<and> workflows (snd (createWorkflow ''wf-1'' testWorkflowData offline_world)) = []"
proof -
  have db: "fst (getDb online_world) \<noteq> None"
    by (simp add: getDb_def online_world_def str_or_def)
  have fresh: "''wf-1'' \<notin> set (map wf_id (workflows online_world))"
    and e: "workflows online_world = []" "workflows offline_world = []"
    by (simp_all add: online_world_def offline_world_def)
  have p: "wd_orchestrationPattern testWorkflowData = Sequential"
    by (simp add: testWorkflowData_def)
  have off: "fst (createWorkflow ''wf-1'' testWorkflowData offline_world)
        = Inl (Error ''Database not available'')"
    by (simp add: createWorkflow_def require_db_def getDb_def offline_world_def
          online_world_def str_or_def)
  from createWorkflow_no_validation
         [of online_world "''wf-1''" testWorkflowData "Error ''Database not available''"]
       db fresh e p
  have on: "fst (createWorkflow ''wf-1'' testWorkflowData online_world)
        = Inr (''wf-1'', testWorkflowData)
   \<and> map (\<lambda>x. (wf_id x, orchestrationPattern x, nodes x, edges x))
        (workflows (snd (createWorkflow ''wf-1'' testWorkflowData online_world)))
       = [(''wf-1'', Sequential, wd_nodes testWorkflowData, wd_edges testWorkflowData)]"
    by simp
  from createWorkflow_no_validation
         [of offline_world "''wf-1''" testWorkflowData "Error ''Database not available''"]
       off e
  have "workflows (snd (createWorkflow ''wf-1'' testWorkflowData offline_world)) = []"
    by simp
  with db fresh on off show ?thesis by simp
qed

theorem dangling_edge_accepted_counterexample:
  "map (json_field ''id'') (obj_or (wd_nodes testWorkflowData) []) = [Some (JStr ''node1'')]
   \<and> map (json_field ''target'') (obj_or (wd_edges testWorkflowData) [])
        = [Some (JStr ''node2'')]
   \<and> fst (createWorkflow ''wf-1'' testWorkflowData online_world)
        = Inr (''wf-1'', testWorkflowData)
   \<and> workflows online_world = []
   \<and> map (\<lambda>x. (wf_id x, map_option (map (json_field ''target'')) (edges x)))
        (workflows (snd (createWorkflow ''wf-1'' testWorkflowData online_world)))
        = [(''wf-1'', Some [Some (JStr ''node2'')])]"
  by (simp add: obj_or_def testWorkflowData_def createWorkflow_def
        require_db_def getDb_def insert_row_def online_world_def str_or_def)

subsection \<open>Status updates and alerts\<close>

lemma snd_outcome:
  "snd (one_row x) = snd x" "snd (row_list y) = snd y"
  "snd (created z) = snd z" "snd (void v) = snd v"
  by (simp_all add: one_row_def row_list_def created_def void_def
        split: prod.split sum.split option.split)

lemma updateTaskStatus_alerts:
  "systemAlerts (snd (updateTaskStatus tid st res w)) = systemAlerts w"
  by (simp add: updateTaskStatus_def require_db_cases getDb_fields)

lemma upsertUser_alerts: "systemAlerts (snd (upsertUser u w)) = systemAlerts w"
  by (simp add: upsertUser_def case_prod_beta option.case_eq_if Let_def getDb_fields)

lemma updateAgentMetrics_alerts:
  "systemAlerts (snd (updateAgentMetrics aid m w)) = systemAlerts w"
  by (simp add: updateAgentMetrics_def getAgent_def require_db_cases read_db_cases
        Let_def getDb_fields split: option.split)

lemma exec_alerts_frame:
  assumes "\<And>n d. c \<noteq> CreateAlert n d"
  shows "systemAlerts (snd (exec c w)) = systemAlerts w"
proof (cases c)
  case (CreateAlert n d)
  with assms show ?thesis by blast
qed (simp_all add: snd_outcome upsertUser_alerts updateAgentMetrics_alerts
        updateTaskStatus_alerts
        require_db_cases read_db_cases getDb_fields insert_row_def
        getUserByOpenId_def createAgent_def getAgent_def listAgents_def
        updateAgentStatus_def createWorkflow_def getWorkflow_def
        listWorkflows_def updateWorkflowStatus_def createTask_def getTask_def
        createMessage_def getConversationHistory_def
        createExecutionLog_def getTaskLogs_def getUnresolvedAlerts_def
        recordMetric_def getAgentMetrics_def getWorkflowTemplates_def getTemplate_def
        listIntegrations_def getIntegration_def listLLMProviders_def
        getDefaultLLMProvider_def)

lemma createAlert_available:
  assumes "fst (getDb w) \<noteq> None" and "nid \<notin> set (map al_id (systemAlerts w))"
  shows "createAlert nid d w =
     (Inr (nid, d), (snd (getDb w))\<lparr>systemAlerts := systemAlerts w @
        [\<lparr>al_id = nid, alertType = ald_alertType d,
          al_severity = Some (obj_or (ald_severity d) SevInfo), al_title = ald_title d,
          al_message = ald_message d, relatedAgentId = ald_relatedAgentId d,
          relatedTaskId = ald_relatedTaskId d, isResolved = Some False,
          al_createdAt = clock w, resolvedAt = None\<rparr>]\<rparr>)"
  using assms by (simp add: createAlert_def require_db_cases insert_row_def getDb_fields)

text \<open>
  Claim C7 (as amended). A status update of a task creates no alert: the alerts are the
  same before and after it, also when the new status is completed, failed or timeout.
  No other operation of the layer creates one either: every call that is not a
  \<^verbatim>\<open>createAlert\<close> leaves the alerts as they are. An alert record with its type, its
  severity (info when none is given) and the related task and agent identifiers is
  created by a call of \<^verbatim>\<open>createAlert\<close>, which the caller makes on its own.
\<close>

theorem updateTaskStatus_emits_no_alert:
  "systemAlerts (snd (updateTaskStatus tid st res w)) = systemAlerts w
   \<and> ((\<forall>n a. c \<noteq> CreateAlert n a) \<longrightarrow> systemAlerts (snd (exec c w)) = systemAlerts w)
   \<and> (fst (getDb w) \<noteq> None \<and> nid \<notin> set (map al_id (systemAlerts w)) \<longrightarrow>
        fst (createAlert nid d w) = Inr (nid, d)
        \<and> map (\<lambda>x. (alertType x, al_severity x, relatedTaskId x, relatedAgentId x))
             (systemAlerts (snd (createAlert nid d w)))
           = map (\<lambda>x. (alertType x, al_severity x, relatedTaskId x, relatedAgentId x))
               (systemAlerts w)
             @ [(ald_alertType d, Some (obj_or (ald_severity d) SevInfo),
                 ald_relatedTaskId d, ald_relatedAgentId d)])"
proof (intro conjI impI)
  show "systemAlerts (snd (updateTaskStatus tid st res w)) = systemAlerts w"
    by (rule updateTaskStatus_alerts)
next
  assume "\<forall>n a. c \<noteq> CreateAlert n a"
  then show "systemAlerts (snd (exec c w)) = systemAlerts w"
    by (intro exec_alerts_frame) blast
next
  assume a: "fst (getDb w) \<noteq> None \<and> nid \<notin> set (map al_id (systemAlerts w))"
  then show "fst (createAlert nid d w) = Inr (nid, d)"
    by (simp add: createAlert_available)
  from a show "map (\<lambda>x. (alertType x, al_severity x, relatedTaskId x, relatedAgentId x))
             (systemAlerts (snd (createAlert nid d w)))
           = map (\<lambda>x. (alertType x, al_severity x, relatedTaskId x, relatedAgentId x))
               (systemAlerts w)
             @ [(ald_alertType d, Some (obj_or (ald_severity d) SevInfo),
                 ald_relatedTaskId d, ald_relatedAgentId d)]"
    by (simp add: createAlert_available)
qed

theorem updateTaskStatus_emits_no_alert_witness:
  "systemAlerts (snd (updateTaskStatus ''task-1'' Completed None task_world)) = []
   \<and> (\<forall>n a. UpdateTaskStatus ''task-1'' Failed None \<noteq> CreateAlert n a)
   \<and> systemAlerts (snd (exec (UpdateTaskStatus ''task-1'' Failed None) task_world)) = []
   \<and> fst (getDb task_world) \<noteq> None
   \<and> ''alert-1'' \<notin> set (map al_id (systemAlerts task_world))
   \<and> fst (createAlert ''alert-1'' completion_alert task_world)
        = Inr (''alert-1'', completion_alert)
   \<and> map (\<lambda>x. (alertType x, al_severity x, relatedTaskId x, relatedAgentId x))
        (systemAlerts (snd (createAlert ''alert-1'' completion_alert task_world)))
       = [(Task_completion, Some SevInfo, Some ''task-1'', None)]"
proof -
  have db: "fst (getDb task_world) \<noteq> None"
    by (simp add: task_world_def createTask_def require_db_def insert_row_def getDb_def
          online_world_def str_or_def)
  have e: "systemAlerts task_world = []"
    by (simp add: task_world_def createTask_def require_db_def insert_row_def getDb_def
          online_world_def str_or_def)
  have d: "ald_alertType completion_alert = Task_completion"
    "obj_or (ald_severity completion_alert) SevInfo = SevInfo"
    "ald_relatedTaskId completion_alert = Some ''task-1''"
    "ald_relatedAgentId completion_alert = None"
    by (simp_all add: completion_alert_def obj_or_def)
  have c: "\<forall>n a. UpdateTaskStatus ''task-1'' Failed None \<noteq> CreateAlert n a"
    by simp
  from updateTaskStatus_emits_no_alert
         [of "''task-1''" Completed None task_world "UpdateTaskStatus ''task-1'' Failed None"
             "''alert-1''" completion_alert] db e d c
  show ?thesis by simp
qed

theorem terminal_update_without_alert_counterexample:
  "map t_status (tasks (snd (updateTaskStatus ''task-1'' Completed None task_world)))
     = [Some Completed]
   \<and> terminal Completed
   \<and> fst (updateTaskStatus ''task-1'' Completed None task_world) = Inr ()
   \<and> systemAlerts (snd (updateTaskStatus ''task-1'' Completed None task_world)) = []"
  by (simp add: task_world_def createTask_def updateTaskStatus_def require_db_def
        insert_row_def getDb_def online_world_def str_or_def update_where_def
        task_updates_def terminal_def testTaskData_def num_or_def)

subsection \<open>Delivery status of messages\<close>

lemma upsertUser_messages: "agentMessages (snd (upsertUser u w)) = agentMessages w"
  by (simp add: upsertUser_def case_prod_beta option.case_eq_if Let_def getDb_fields)

lemma updateAgentMetrics_messages:
  "agentMessages (snd (updateAgentMetrics aid m w)) = agentMessages w"
  by (simp add: updateAgentMetrics_def getAgent_def require_db_cases read_db_cases
        Let_def getDb_fields split: option.split)

lemma exec_messages_frame:
  assumes "\<And>n d. c \<noteq> CreateMessage n d"
  shows "agentMessages (snd (exec c w)) = agentMessages w"
proof (cases c)
  case (CreateMessage n d)
  with assms show ?thesis by blast
qed (simp_all add: snd_outcome upsertUser_messages updateAgentMetrics_messages
        require_db_cases read_db_cases getDb_fields insert_row_def
        getUserByOpenId_def createAgent_def getAgent_def listAgents_def
        updateAgentStatus_def createWorkflow_def getWorkflow_def
        listWorkflows_def updateWorkflowStatus_def createTask_def getTask_def
        updateTaskStatus_def getConversationHistory_def
        createExecutionLog_def getTaskLogs_def createAlert_def getUnresolvedAlerts_def
        recordMetric_def getAgentMetrics_def getWorkflowTemplates_def getTemplate_def
        listIntegrations_def getIntegration_def listLLMProviders_def
        getDefaultLLMProvider_def)

lemma createMessage_cases:
  "createMessage nid d w =
     (if fst (getDb w) = None then (Inl (Error ''Database not available''), w)
      else if nid \<in> set (map m_id (agentMessages w))
        then (Inl (DriverError ''ER_DUP_ENTRY''), snd (getDb w))
      else (Inr (nid, d), (snd (getDb w))\<lparr>agentMessages := agentMessages w @
          [\<lparr>m_id = nid, senderId = md_senderId d, recipientId = md_recipientId d,
            m_taskId = md_taskId d, messageType = md_messageType d,
            m_content = Some (md_content d), m_timestamp = clock w,
            deliveryStatus = Some DeliveryPending, m_metadata = md_metadata d\<rparr>]\<rparr>))"
  by (simp add: createMessage_def require_db_cases insert_row_def getDb_fields)

lemma exec_messages:
  "\<exists>new. agentMessages (snd (exec c w)) = agentMessages w @ new
         \<and> (\<forall>m \<in> set new. deliveryStatus m = Some DeliveryPending)"
proof (cases "\<exists>n d. c = CreateMessage n d")
  case True
  then obtain n d where c: "c = CreateMessage n d" by blast
  show ?thesis
    unfolding c by (simp add: snd_outcome createMessage_cases getDb_fields)
next
  case False
  then have "agentMessages (snd (exec c w)) = agentMessages w"
    by (intro exec_messages_frame) blast
  then show ?thesis by simp
qed

lemma exec_all_messages:
  "\<exists>new. agentMessages (exec_all cs w) = agentMessages w @ new
         \<and> (\<forall>m \<in> set new. deliveryStatus m = Some DeliveryPending)"
proof (induction cs arbitrary: w)
  case Nil
  show ?case by simp
next
  case (Cons c cs)
  from exec_messages [of c w] obtain n1 where
    s1: "agentMessages (snd (exec c w)) = agentMessages w @ n1"
    and p1: "\<forall>m \<in> set n1. deliveryStatus m = Some DeliveryPending" by blast
  from Cons.IH [of "snd (exec c w)"] obtain n2 where
    s2: "agentMessages (exec_all cs (snd (exec c w))) = agentMessages (snd (exec c w)) @ n2"
    and p2: "\<forall>m \<in> set n2. deliveryStatus m = Some DeliveryPending" by blast
  have "agentMessages (exec_all (c # cs) w) = agentMessages w @ (n1 @ n2)"
    using s1 s2 by simp
  moreover have "\<forall>m \<in> set (n1 @ n2). deliveryStatus m = Some DeliveryPending"
    using p1 p2 by auto
  ultimately show ?case by blast
qed

text \<open>
  Claim C5 (as amended). A message is stored with delivery status pending, and the
  status stays pending: whatever calls of the layer follow, every stored message is
  kept as it is and the only messages added are pending ones. The layer has no
  operation that marks a message delivered, acknowledged or failed, and none that
  retries a delivery.
\<close>

theorem deliveryStatus_stays_pending:
  "(fst (getDb w) \<noteq> None \<and> nid \<notin> set (map m_id (agentMessages w)) \<longrightarrow>
      fst (createMessage nid d w) = Inr (nid, d)
      \<and> map (\<lambda>m. (m_id m, deliveryStatus m)) (agentMessages (snd (createMessage nid d w)))
         = map (\<lambda>m. (m_id m, deliveryStatus m)) (agentMessages w)
           @ [(nid, Some DeliveryPending)])
   \<and> (\<exists>new. agentMessages (exec_all cs w) = agentMessages w @ new
         \<and> (\<forall>m \<in> set new. deliveryStatus m = Some DeliveryPending))"
  using exec_all_messages [of cs w] by (simp add: createMessage_cases)

theorem deliveryStatus_stays_pending_witness:
  "fst (getDb task_world) \<noteq> None \<and> ''msg-1'' \<notin> set (map m_id (agentMessages task_world))
   \<and> fst (createMessage ''msg-1'' testMessageData task_world) = Inr (''msg-1'', testMessageData)
   \<and> map (\<lambda>m. (m_id m, deliveryStatus m))
        (agentMessages (snd (createMessage ''msg-1'' testMessageData task_world)))
       = [(''msg-1'', Some DeliveryPending)]
   \<and> (\<exists>new. agentMessages (exec_all
                [UpdateTaskStatus ''task-1'' Running None,
                 CreateMessage ''msg-2'' testMessageData,
                 UpdateTaskStatus ''task-1'' Completed None] message_world)
              = agentMessages message_world @ new
         \<and> new \<noteq> []
         \<and> (\<forall>m \<in> set new. deliveryStatus m = Some DeliveryPending))"
proof -
  have db: "fst (getDb task_world) \<noteq> None"
    by (simp add: task_world_def createTask_def require_db_def insert_row_def getDb_def
          online_world_def str_or_def)
  have e: "agentMessages task_world = []"
    by (simp add: task_world_def createTask_def require_db_def insert_row_def getDb_def
          online_world_def str_or_def)
  from deliveryStatus_stays_pending [of task_world "''msg-1''" testMessageData] db e
  have a: "fst (createMessage ''msg-1'' testMessageData task_world)
             = Inr (''msg-1'', testMessageData)
      \<and> map (\<lambda>m. (m_id m, deliveryStatus m))
          (agentMessages (snd (createMessage ''msg-1'' testMessageData task_world)))
         = [(''msg-1'', Some DeliveryPending)]"
    by simp
  let ?cs = "[UpdateTaskStatus ''task-1'' Running None,
              CreateMessage ''msg-2'' testMessageData,
              UpdateTaskStatus ''task-1'' Completed None]"
  from deliveryStatus_stays_pending [of message_world "''msg-1''" testMessageData ?cs]
  obtain new where
    n1: "agentMessages (exec_all ?cs message_world) = agentMessages message_world @ new"
    and n2: "\<forall>m \<in> set new. deliveryStatus m = Some DeliveryPending"
    by blast
  have l1: "length (agentMessages message_world) = 1"
    by (simp add: message_world_def task_world_def createTask_def createMessage_def
          require_db_def insert_row_def getDb_def online_world_def str_or_def)
  have l2: "length (agentMessages (exec_all ?cs message_world)) = 2"
    by (simp add: message_world_def task_world_def createTask_def createMessage_def
          updateTaskStatus_def require_db_def insert_row_def getDb_def online_world_def
          str_or_def created_def void_def update_where_def)
  from n1 l1 l2 have "new \<noteq> []" by auto
  with n1 n2 have b: "\<exists>new. agentMessages (exec_all ?cs message_world)
              = agentMessages message_world @ new
         \<and> new \<noteq> []
         \<and> (\<forall>m \<in> set new. deliveryStatus m = Some DeliveryPending)"
    by blast
  from db e a b show ?thesis by simp
qed

theorem delivery_progression_counterexample:
  "map (\<lambda>m. (m_id m, deliveryStatus m)) (agentMessages message_world)
     = [(''msg-1'', Some DeliveryPending)]
   \<and> \<not> (\<exists>cs. map (\<lambda>m. (m_id m, deliveryStatus m))
               (take 1 (agentMessages (exec_all cs message_world)))
             \<noteq> [(''msg-1'', Some DeliveryPending)])"
proof -
  have m: "map (\<lambda>m. (m_id m, deliveryStatus m)) (agentMessages message_world)
     = [(''msg-1'', Some DeliveryPending)]"
    by (simp add: message_world_def task_world_def createTask_def createMessage_def
          require_db_def insert_row_def getDb_def online_world_def str_or_def)
  then have "length (map (\<lambda>m. (m_id m, deliveryStatus m)) (agentMessages message_world)) = 1"
    by simp
  then have len: "length (agentMessages message_world) = 1"
    by (simp only: length_map)
  have "map (\<lambda>m. (m_id m, deliveryStatus m))
               (take 1 (agentMessages (exec_all cs message_world)))
             = [(''msg-1'', Some DeliveryPending)]" for cs
  proof -
    from exec_all_messages [of cs message_world] obtain new where
      "agentMessages (exec_all cs message_world) = agentMessages message_world @ new"
      by blast
    then show ?thesis using m len by simp
  qed
  with m show ?thesis by simp
qed

subsection \<open>Saving a consensus\<close>

lemma getDb2_fields:
  "workflows2 (snd (getDb2 w)) = workflows2 w"
  "tasks2 (snd (getDb2 w)) = tasks2 w"
  "consensusResults (snd (getDb2 w)) = consensusResults w"
  by (simp_all add: getDb2_def)

lemma require_db2_cases:
  "require_db2 w k =
     (if fst (getDb2 w) = None then (Inl (Error ''Database not available''), w)
      else k (snd (getDb2 w)))"
  by (cases "fst (getDb2 w)") (simp_all add: require_db2_unavailable require_db2_available)

lemma collect_Inl: "collect rs = Inl e \<Longrightarrow> Inl e \<in> set rs"
  by (induction rs rule: collect.induct) (auto split: sum.splits)

lemma JSON_stringify_error:
  "JSON_stringify v = Inl e \<Longrightarrow> e = TypeError ''Do not know how to serialize a BigInt''"
proof (induction v rule: JSON_stringify.induct)
  case (6 xs)
  from "6.prems" have "collect (map JSON_stringify xs) = Inl e"
    by (simp split: sum.splits)
  then have "Inl e \<in> set (map JSON_stringify xs)" by (rule collect_Inl)
  then obtain x where "x \<in> set xs" and "JSON_stringify x = Inl e" by auto
  then show ?case using "6.IH" by blast
next
  case (7 kvs)
  let ?f = "\<lambda>kv. case JSON_stringify (snd kv) of
                     Inl e \<Rightarrow> Inl e
                   | Inr t \<Rightarrow> Inr (QuoteJSONString (fst kv) @ '':'' @ t)"
  from "7.prems" have "collect (map ?f kvs) = Inl e"
    by (simp split: sum.splits)
  then have "Inl e \<in> set (map ?f kvs)" by (rule collect_Inl)
  then obtain kv where kv: "kv \<in> set kvs" and "?f kv = Inl e" by auto
  then have "JSON_stringify (snd kv) = Inl e" by (simp split: sum.splits)
  then show ?case using "7.IH" kv by blast
qed simp_all

lemma saveConsensusResult_cases:
  "saveConsensusResult nid d w =
     (if fst (getDb2 w) = None then (Inl (Error ''Database not available''), w)
      else case JSON_stringify (any_or (cd_agentResults d) (VArr [])) of
        Inl e \<Rightarrow> (Inl e, snd (getDb2 w))
      | Inr a \<Rightarrow>
      case JSON_stringify (any_or (cd_finalResult d) (VObj [])) of
        Inl e \<Rightarrow> (Inl e, snd (getDb2 w))
      | Inr f \<Rightarrow>
      if ''consensus-'' @ nid \<in> set (map cr_id (consensusResults w))
        then (Inl (DriverError ''ER_DUP_ENTRY''), snd (getDb2 w))
      else (Inr (''consensus-'' @ nid, d),
            (snd (getDb2 w))\<lparr>consensusResults := consensusResults w @
              [\<lparr>cr_id = ''consensus-'' @ nid, cr_userId = cd_userId d,
                cr_taskId = cd_taskId d, consensusType = cd_consensusType d,
                agentResults = a, finalResult = f,
                confidence = number_toString (number_or (cd_confidence d) (Number ''0''))\<rparr>]\<rparr>))"
  by (simp add: saveConsensusResult_def require_db2_cases insert_row_def getDb2_fields
        split: sum.split)

text \<open>
  Claim C1 (as amended). The consensus operation of the layer stores what the caller
  gives: with the database available and an unused identifier, the saved record holds
  the JSON text of the agent results as given, the JSON text of the caller's final
  result (of an empty object when absent) and the text of the caller's confidence (of 0
  when absent). Nothing is computed from the agent results: no bucket is formed, no
  winner chosen, no confidence summed. When \<^verbatim>\<open>JSON.stringify\<close> throws on one of the
  two values, the exception is thrown on and no record is saved.
\<close>

theorem saveConsensusResult_stores_given:
  assumes "fst (getDb2 w) \<noteq> None"
    and "''consensus-'' @ nid \<notin> set (map cr_id (consensusResults w))"
  shows "(JSON_stringify (any_or (cd_agentResults d) (VArr [])) = Inr a
          \<and> JSON_stringify (any_or (cd_finalResult d) (VObj [])) = Inr f \<longrightarrow>
            fst (saveConsensusResult nid d w) = Inr (''consensus-'' @ nid, d)
            \<and> map (\<lambda>r. (agentResults r, finalResult r, confidence r))
                 (consensusResults (snd (saveConsensusResult nid d w)))
               = map (\<lambda>r. (agentResults r, finalResult r, confidence r)) (consensusResults w)
                 @ [(a, f, number_toString (number_or (cd_confidence d) (Number ''0'')))])
       \<and> (JSON_stringify (any_or (cd_agentResults d) (VArr [])) = Inl e
          \<or> JSON_stringify (any_or (cd_agentResults d) (VArr [])) = Inr a
            \<and> JSON_stringify (any_or (cd_finalResult d) (VObj [])) = Inl e \<longrightarrow>
            fst (saveConsensusResult nid d w) = Inl e
            \<and> consensusResults (snd (saveConsensusResult nid d w)) = consensusResults w)"
  using assms by (auto simp add: saveConsensusResult_cases getDb2_fields)

theorem saveConsensusResult_stores_given_witness:
  "fst (getDb2 online_world2) \<noteq> None
   \<and> ''consensus-'' @ ''c1'' \<notin> set (map cr_id (consensusResults online_world2))
   \<and> fst (saveConsensusResult ''c1''
        ((voting_request (Some aab_results))
           \<lparr>cd_finalResult := Some (VObj [(''value'', VStr ''B'')]),
            cd_confidence := Some (Number ''1'')\<rparr>)
        online_world2)
       = Inr (''consensus-c1'', (voting_request (Some aab_results))
           \<lparr>cd_finalResult := Some (VObj [(''value'', VStr ''B'')]),
            cd_confidence := Some (Number ''1'')\<rparr>)
   \<and> map (\<lambda>r. (Inr (agentResults r), Inr (finalResult r), confidence r))
        (consensusResults (snd (saveConsensusResult ''c1''
           ((voting_request (Some aab_results))
              \<lparr>cd_finalResult := Some (VObj [(''value'', VStr ''B'')]),
               cd_confidence := Some (Number ''1'')\<rparr>)
           online_world2)))
       = [(JSON_stringify aab_results, JSON_stringify (VObj [(''value'', VStr ''B'')]), ''1'')]
   \<and> JSON_stringify (VArr [VBigInt 1])
       = Inl (TypeError ''Do not know how to serialize a BigInt'')
   \<and> fst (saveConsensusResult ''c1'' (voting_request (Some (VArr [VBigInt 1]))) online_world2)
       = Inl (TypeError ''Do not know how to serialize a BigInt'')
   \<and> consensusResults
        (snd (saveConsensusResult ''c1'' (voting_request (Some (VArr [VBigInt 1])))
           online_world2)) = []"
proof -
  let ?d = "(voting_request (Some aab_results))
           \<lparr>cd_finalResult := Some (VObj [(''value'', VStr ''B'')]),
            cd_confidence := Some (Number ''1'')\<rparr>"
  let ?bad = "voting_request (Some (VArr [VBigInt 1]))"
  have db: "fst (getDb2 online_world2) \<noteq> None"
    by (simp add: getDb2_def online_world2_def str_or_def)
  have fresh: "''consensus-'' @ ''c1'' \<notin> set (map cr_id (consensusResults online_world2))"
    and e: "consensusResults online_world2 = []"
    by (simp_all add: online_world2_def)
  have v: "any_or (cd_agentResults ?d) (VArr []) = aab_results"
    "any_or (cd_finalResult ?d) (VObj []) = VObj [(''value'', VStr ''B'')]"
    "number_toString (number_or (cd_confidence ?d) (Number ''0'')) = ''1''"
    "any_or (cd_agentResults ?bad) (VArr []) = VArr [VBigInt 1]"
    by (simp_all add: any_or_def number_or_def number_truthy_def aab_results_def
          voting_request_def)
  obtain a where a: "JSON_stringify aab_results = Inr a"
    by (simp add: aab_results_def agent_result_def)
  obtain f where f: "JSON_stringify (VObj [(''value'', VStr ''B'')]) = Inr f"
    by simp
  have b: "JSON_stringify (VArr [VBigInt 1])
             = Inl (TypeError ''Do not know how to serialize a BigInt'')"
    by simp
  from saveConsensusResult_stores_given [OF db fresh, of ?d a f] a f v e
  have ok: "fst (saveConsensusResult ''c1'' ?d online_world2) = Inr (''consensus-c1'', ?d)
     \<and> map (\<lambda>r. (Inr (agentResults r), Inr (finalResult r), confidence r))
          (consensusResults (snd (saveConsensusResult ''c1'' ?d online_world2)))
        = [(JSON_stringify aab_results, JSON_stringify (VObj [(''value'', VStr ''B'')]), ''1'')]"
    by (auto simp add: map_eq_Cons_conv)
  from saveConsensusResult_stores_given [OF db fresh, of ?bad a f
         "TypeError ''Do not know how to serialize a BigInt''"] b v e
  have bad: "fst (saveConsensusResult ''c1'' ?bad online_world2)
       = Inl (TypeError ''Do not know how to serialize a BigInt'')
     \<and> consensusResults (snd (saveConsensusResult ''c1'' ?bad online_world2)) = []"
    by simp
  from db fresh ok b bad show ?thesis by simp
qed

theorem voting_not_computed_counterexample:
  "fst (saveConsensusResult ''c1'' (voting_request (Some aab_results)) online_world2)
     = Inr (''consensus-c1'', voting_request (Some aab_results))
   \<and> map (\<lambda>r. (Inr (agentResults r), finalResult r, confidence r))
        (consensusResults
           (snd (saveConsensusResult ''c1'' (voting_request (Some aab_results)) online_world2)))
       = [(JSON_stringify aab_results, ''{}'', ''0'')]
   \<and> JSON_stringify (VStr ''A'') \<noteq> Inr ''{}''
   \<and> (0 :: real) \<noteq> (9 / 10 + 6 / 10) / (245 / 100)"
  by (simp add: saveConsensusResult_def require_db2_def getDb2_def insert_row_def
        online_world2_def str_or_def voting_request_def any_or_def number_or_def
        aab_results_def agent_result_def QuoteJSONString_def quote_char_def)

lemma saveConsensusResult_tasks:
  "tasks2 (snd (saveConsensusResult nid d w)) = tasks2 w"
  by (simp add: saveConsensusResult_cases getDb2_fields split: sum.split)

lemma saveConsensusResult_failure:
  assumes "fst (saveConsensusResult nid d w) = Inl e"
  shows "e = Error ''Database not available'' \<or> e = DriverError ''ER_DUP_ENTRY''
       \<or> e = TypeError ''Do not know how to serialize a BigInt''"
  using assms
  by (auto simp add: saveConsensusResult_cases split: if_splits sum.splits
        dest: JSON_stringify_error)

text \<open>
  Claim C4 (as amended). Saving a consensus with an empty or absent result set is not
  an error: with the database available, an unused identifier and a final result that
  \<^verbatim>\<open>JSON.stringify\<close> accepts, it succeeds and stores the text of the empty list. The
  operation never changes a task, so no task becomes failed, and when it throws, the
  error is \<^verbatim>\<open>"Database not available"\<close>, the driver's duplicate-key error or the
  \<^verbatim>\<open>TypeError\<close> of \<^verbatim>\<open>JSON.stringify\<close>, not a consensus error.
\<close>

theorem saveConsensusResult_accepts_empty:
  "(fst (getDb2 w) \<noteq> None \<and> ''consensus-'' @ nid \<notin> set (map cr_id (consensusResults w))
      \<and> (cd_agentResults d = None \<or> cd_agentResults d = Some (VArr []))
      \<and> JSON_stringify (any_or (cd_finalResult d) (VObj [])) = Inr f \<longrightarrow>
        fst (saveConsensusResult nid d w) = Inr (''consensus-'' @ nid, d)
        \<and> map agentResults (consensusResults (snd (saveConsensusResult nid d w)))
            = map agentResults (consensusResults w) @ [''[]''])
   \<and> tasks2 (snd (saveConsensusResult nid d w)) = tasks2 w
   \<and> (fst (saveConsensusResult nid d w) = Inl e \<longrightarrow>
        e = Error ''Database not available'' \<or> e = DriverError ''ER_DUP_ENTRY''
        \<or> e = TypeError ''Do not know how to serialize a BigInt'')"
proof (intro conjI impI)
  assume a: "fst (getDb2 w) \<noteq> None
      \<and> ''consensus-'' @ nid \<notin> set (map cr_id (consensusResults w))
      \<and> (cd_agentResults d = None \<or> cd_agentResults d = Some (VArr []))
      \<and> JSON_stringify (any_or (cd_finalResult d) (VObj [])) = Inr f"
  then have ar: "JSON_stringify (any_or (cd_agentResults d) (VArr [])) = Inr ''[]''"
    by (auto simp add: any_or_def)
  from a ar show "fst (saveConsensusResult nid d w) = Inr (''consensus-'' @ nid, d)"
    by (simp add: saveConsensusResult_cases)
  from a ar show "map agentResults (consensusResults (snd (saveConsensusResult nid d w)))
            = map agentResults (consensusResults w) @ [''[]'']"
    by (simp add: saveConsensusResult_cases)
next
  show "tasks2 (snd (saveConsensusResult nid d w)) = tasks2 w"
    by (rule saveConsensusResult_tasks)
next
  assume "fst (saveConsensusResult nid d w) = Inl e"
  then show "e = Error ''Database not available'' \<or> e = DriverError ''ER_DUP_ENTRY''
        \<or> e = TypeError ''Do not know how to serialize a BigInt''"
    by (rule saveConsensusResult_failure)
qed

theorem saveConsensusResult_accepts_empty_witness:
  "fst (getDb2 online_world2) \<noteq> None
   \<and> ''consensus-'' @ ''c2'' \<notin> set (map cr_id (consensusResults online_world2))
   \<and> cd_agentResults (voting_request None) = None
   \<and> JSON_stringify (any_or (cd_finalResult (voting_request None)) (VObj [])) = Inr ''{}''
   \<and> fst (saveConsensusResult ''c2'' (voting_request None) online_world2)
       = Inr (''consensus-c2'', voting_request None)
   \<and> map agentResults
        (consensusResults (snd (saveConsensusResult ''c2'' (voting_request None) online_world2)))
       = [''[]'']
   \<and> map tk_status (tasks2 (snd (saveConsensusResult ''c2'' (voting_request None) online_world2)))
       = [Running]
   \<and> fst (saveConsensusResult ''c2'' (voting_request None) (online_world2\<lparr>DATABASE_URL2 := None\<rparr>))
       = Inl (Error ''Database not available'')"
proof -
  have db: "fst (getDb2 online_world2) \<noteq> None"
    by (simp add: getDb2_def online_world2_def str_or_def)
  have fresh: "''consensus-'' @ ''c2'' \<notin> set (map cr_id (consensusResults online_world2))"
    and e: "consensusResults online_world2 = []"
    and t: "map tk_status (tasks2 online_world2) = [Running]"
    by (simp_all add: online_world2_def)
  have n: "cd_agentResults (voting_request None) = None"
    and f: "JSON_stringify (any_or (cd_finalResult (voting_request None)) (VObj [])) = Inr ''{}''"
    by (simp_all add: voting_request_def any_or_def)
  have off: "fst (saveConsensusResult ''c2'' (voting_request None)
                (online_world2\<lparr>DATABASE_URL2 := None\<rparr>))
       = Inl (Error ''Database not available'')"
    by (simp add: saveConsensusResult_def require_db2_def getDb2_def online_world2_def
          str_or_def)
  from saveConsensusResult_accepts_empty
         [of online_world2 "''c2''" "voting_request None" "''{}''"
             "Error ''Database not available''"]
       db fresh e t n f
  have "fst (saveConsensusResult ''c2'' (voting_request None) online_world2)
       = Inr (''consensus-c2'', voting_request None)
   \<and> map agentResults
        (consensusResults (snd (saveConsensusResult ''c2'' (voting_request None) online_world2)))
       = [''[]'']
   \<and> map tk_status (tasks2 (snd (saveConsensusResult ''c2'' (voting_request None) online_world2)))
       = [Running]"
    by simp
  with db fresh n f off show ?thesis by simp
qed

theorem empty_consensus_succeeds_counterexample:
  "fst (saveConsensusResult ''c2'' (voting_request (Some (VArr []))) online_world2)
     = Inr (''consensus-c2'', voting_request (Some (VArr [])))
   \<and> map agentResults (consensusResults
        (snd (saveConsensusResult ''c2'' (voting_request (Some (VArr []))) online_world2)))
       = [''[]'']
   \<and> map (\<lambda>t. (tk_id t, tk_status t)) (tasks2
        (snd (saveConsensusResult ''c2'' (voting_request (Some (VArr []))) online_world2)))
       = [(''task-1'', Running)]"
  by (simp add: saveConsensusResult_def require_db2_def getDb2_def insert_row_def
        online_world2_def str_or_def voting_request_def any_or_def number_or_def)

end
